theory Spec2Isabelle
  imports Complex_Main "HOL-Library.Sublist"
begin

section \<open>The RAG service of \<^verbatim>\<open>packages/rag_service/server.py\<close>\<close>

text \<open>
  The two request handlers of the server, \<^verbatim>\<open>retrieve\<close> and
  \<^verbatim>\<open>transcribe_audio\<close>, as functions of the server state, the request and the
  behaviour of the libraries they call (embedding model, vector index, speech models,
  language detection, the file system). Python floats are read as real numbers: widening a
  32-bit distance to a Python float is exact and the comparison of two finite floats is the
  comparison of their values; NaN is not represented, and sums and quotients of floats are
  those of the reals, without rounding. An exception is a value: \<open>Inl\<close> of a sum
  carries the message of the exception raised, \<open>Inr\<close> the value returned.
\<close>

subsection \<open>Exceptions, effects\<close>

datatype exn =
    HTTPException nat string
  | RequestValidationError
  | Exception string

datatype slot = Primary | Fallback

text \<open>
  The calls a handler makes to its collaborators, in the order it makes them. A handler
  returns the list of its calls next to its result, so that "was not called" and "was
  called once" are statements about the code.
\<close>

datatype event =
    Detect string
  | Encode string
  | NormalizeL2
  | Search int
  | ChunkLookup int
  | UploadRead
  | TempCreated string
  | ModelRun slot string
  | Unlinked string

datatype detect_outcome =
    Detected string
  | LangDetectException
  | DetectError string

subsection \<open>Request and response models\<close>

text \<open>
  The Pydantic models of lines 97 to 152. A field called \<^verbatim>\<open>text\<close> or
  \<^verbatim>\<open>query\<close> in two models carries a prefix in one of them. A
  \<^verbatim>\<open>DocumentChunk\<close> is one entry of \<^verbatim>\<open>metadata['chunks']\<close>, the dictionary
  written at ingestion with the seven keys the handler reads; a
  \<^verbatim>\<open>DocumentResult\<close> is those seven fields and the score.
\<close>

record RetrievalRequest =
  query :: string
  k :: int
  lang_hint :: "string option"
  threshold :: "real option"

record DocumentChunk =
  chunk_id :: int
  filename :: string
  page_num :: int
  chunk_text :: string
  excerpt :: string
  char_start :: int
  char_end :: int

record DocumentResult = DocumentChunk +
  score :: real

record RetrievalResponse =
  resp_query :: string
  results :: "DocumentResult list"
  num_results :: nat
  detected_language :: "string option"
  processing_time_ms :: real

record segment =
  seg_start :: real
  seg_end :: real
  seg_text :: string

record TranscriptionResponse =
  resp_text :: string
  language :: string
  confidence :: "real option"
  segments :: "segment list"

subsection \<open>Server state and environment\<close>

text \<open>
  A loaded model is its behaviour. The sentence embedder maps the query to a vector or
  raises; the index maps a vector and \<open>k\<close> to the two rows \<open>distances[0]\<close> and
  \<open>indices[0]\<close>, or raises. The primary speech model is used through three calls
  (\<open>processor(...)\<close>, \<open>generate\<close>, \<open>batch_decode\<close>); moving the inputs to the device
  is part of the first.
\<close>

text \<open>
  What Whisper returns: a dictionary, read with \<^verbatim>\<open>.get\<close> or with \<^verbatim>\<open>[...]\<close>;
  a key that is missing is \<open>None\<close> here.
\<close>

record whisper_segment =
  ws_start :: "real option"
  ws_end :: "real option"
  ws_text :: "string option"
  ws_no_speech_prob :: "real option"

record whisper_result =
  w_text :: "string option"
  w_language :: "string option"
  w_segments :: "whisper_segment list option"

record metadata_store =
  chunks :: "DocumentChunk list"

record ServerState =
  index :: "(real list \<Rightarrow> int \<Rightarrow> string + (real list \<times> int list)) option"
  metadata :: "metadata_store option"
  model :: "(string \<Rightarrow> string + real list) option"
  whisper_model :: "(nat list \<Rightarrow> string + whisper_result) option"
  indicseamless_processor ::
    "((real list \<Rightarrow> string + real list) \<times> (nat list list \<Rightarrow> string + string list)) option"
  indicseamless_model :: "(real list \<Rightarrow> string + nat list list) option"
  ready :: bool

text \<open>
  What the module imports and the clock: the two import flags, \<^verbatim>\<open>langdetect.detect\<close>,
  \<^verbatim>\<open>faiss.normalize_L2\<close>, \<^verbatim>\<open>librosa.load\<close> on the bytes of a file, the
  extension that \<^verbatim>\<open>os.path.splitext\<close> finds in a file name, the path that
  \<^verbatim>\<open>tempfile.NamedTemporaryFile\<close> picks for a suffix, and the rounded number of
  milliseconds between the two readings of the clock in \<^verbatim>\<open>retrieve\<close>.
\<close>

record Env =
  WHISPER_AVAILABLE :: bool
  LANGDETECT_AVAILABLE :: bool
  detect :: "string \<Rightarrow> detect_outcome"
  normalize_L2 :: "real list \<Rightarrow> real list"
  librosa_load :: "nat list \<Rightarrow> string + real list"
  splitext_ext :: "string \<Rightarrow> string"
  temp_name :: "string \<Rightarrow> string"
  elapsed_ms :: real

subsection \<open>Python list indexing\<close>

text \<open>
  \<^verbatim>\<open>xs[i]\<close>: an index from \<open>0\<close> counts from the front, a negative one down to
  \<open>- len(xs)\<close> from the back, any other raises \<^verbatim>\<open>IndexError\<close>.
\<close>

definition py_getitem :: "'a list \<Rightarrow> int \<Rightarrow> string + 'a" where
  "py_getitem xs i =
     (if 0 \<le> i \<and> i < int (length xs) then Inr (xs ! nat i)
      else if i < 0 \<and> - int (length xs) \<le> i then Inr (xs ! nat (int (length xs) + i))
      else Inl ''list index out of range'')"

subsection \<open>\<^verbatim>\<open>POST /retrieve\<close>\<close>

text \<open>
  The schema of the request (\<^verbatim>\<open>RetrievalRequest\<close>, lines 97 to 110):
  \<^verbatim>\<open>query\<close> has \<^verbatim>\<open>min_length=1\<close>, \<^verbatim>\<open>k\<close> has \<^verbatim>\<open>ge=1, le=50\<close>,
  \<^verbatim>\<open>threshold\<close> has \<^verbatim>\<open>ge=0.0, le=1.0\<close>.
\<close>

definition RetrievalRequest_valid :: "RetrievalRequest \<Rightarrow> bool" where
  "RetrievalRequest_valid request \<longleftrightarrow>
     1 \<le> length (query request) \<and>
     1 \<le> k request \<and> k request \<le> 50 \<and>
     (case threshold request of None \<Rightarrow> True | Some t \<Rightarrow> 0 \<le> t \<and> t \<le> 1)"

text \<open>Lines 395 to 404: the result built from a chunk and its score.\<close>

definition make_result :: "DocumentChunk \<Rightarrow> real \<Rightarrow> DocumentResult" where
  "make_result chunk_data s =
     \<lparr>chunk_id = chunk_id chunk_data,
      filename = filename chunk_data,
      page_num = page_num chunk_data,
      chunk_text = chunk_text chunk_data,
      excerpt = excerpt chunk_data,
      char_start = char_start chunk_data,
      char_end = char_end chunk_data,
      score = s\<rparr>"

text \<open>Line 388: \<^verbatim>\<open>state.metadata['chunks'][chunk_idx]\<close>.\<close>

definition chunk_at :: "ServerState \<Rightarrow> int \<Rightarrow> string + DocumentChunk" where
  "chunk_at st chunk_idx =
     (case metadata st of
        None \<Rightarrow> Inl ''NoneType object is not subscriptable''
      | Some md \<Rightarrow> py_getitem (chunks md) chunk_idx)"

text \<open>
  Lines 383 to 405, the loop over \<^verbatim>\<open>zip(distances[0], indices[0])\<close>. The
  accumulator holds the calls made so far and the list \<^verbatim>\<open>results\<close>.
\<close>

fun build_results ::
  "ServerState \<Rightarrow> real option \<Rightarrow> (real \<times> int) list \<Rightarrow> event list \<times> DocumentResult list
     \<Rightarrow> event list \<times> (string + DocumentResult list)" where
  "build_results st thr [] (evs, res) = (evs, Inr res)"
| "build_results st thr ((distance, chunk_idx) # rest) (evs, res) =
     (if chunk_idx = - 1 then build_results st thr rest (evs, res)
      else
        (case chunk_at st chunk_idx of
           Inl e \<Rightarrow> (evs @ [ChunkLookup chunk_idx], Inl e)
         | Inr chunk_data \<Rightarrow>
             (let s = distance in
              if thr \<noteq> None \<and> s < the thr
              then build_results st thr rest (evs @ [ChunkLookup chunk_idx], res)
              else build_results st thr rest
                     (evs @ [ChunkLookup chunk_idx], res @ [make_result chunk_data s]))))"

text \<open>Lines 365 to 371: best-effort language detection of the query.\<close>

definition detect_query_language ::
  "Env \<Rightarrow> string \<Rightarrow> event list \<times> (string + string option)" where
  "detect_query_language env q =
     (if LANGDETECT_AVAILABLE env then
        (case detect env q of
           Detected l \<Rightarrow> ([Detect q], Inr (Some l))
         | LangDetectException \<Rightarrow> ([Detect q], Inr None)
         | DetectError e \<Rightarrow> ([Detect q], Inl e))
      else ([], Inr None))"

text \<open>Lines 373 to 380: embed the query, normalise, search the index.\<close>

definition index_search ::
  "Env \<Rightarrow> ServerState \<Rightarrow> RetrievalRequest \<Rightarrow> event list \<times> (string + (real list \<times> int list))" where
  "index_search env st request =
     (case model st of
        None \<Rightarrow> ([], Inl ''NoneType object has no attribute encode'')
      | Some encode \<Rightarrow>
          (case encode (query request) of
             Inl e \<Rightarrow> ([Encode (query request)], Inl e)
           | Inr query_embedding \<Rightarrow>
               (case index st of
                  None \<Rightarrow> ([Encode (query request), NormalizeL2],
                            Inl ''NoneType object has no attribute search'')
                | Some search \<Rightarrow>
                    ([Encode (query request), NormalizeL2, Search (k request)],
                     search (normalize_L2 env query_embedding) (k request)))))"

definition retrieve ::
  "Env \<Rightarrow> ServerState \<Rightarrow> RetrievalRequest \<Rightarrow> event list \<times> (exn + RetrievalResponse)" where
  "retrieve env st request =
     (if \<not> ready st then ([], Inl (HTTPException 503 ''Service not ready''))
      else
        (case detect_query_language env (query request) of
           (evs1, Inl e) \<Rightarrow> (evs1, Inl (Exception e))
         | (evs1, Inr detected_lang) \<Rightarrow>
             (case index_search env st request of
                (evs2, Inl e) \<Rightarrow> (evs1 @ evs2, Inl (Exception e))
              | (evs2, Inr (distances, indices)) \<Rightarrow>
                  (case build_results st (threshold request) (zip distances indices)
                          (evs1 @ evs2, []) of
                     (evs3, Inl e) \<Rightarrow> (evs3, Inl (Exception e))
                   | (evs3, Inr res) \<Rightarrow>
                       (evs3,
                        Inr \<lparr>resp_query = query request,
                             results = res,
                             num_results = length res,
                             detected_language = detected_lang,
                             processing_time_ms = elapsed_ms env\<rparr>)))))"

text \<open>
  The route: the framework validates the body against the schema and answers 422 without
  calling the handler when it does not fit.
\<close>

definition post_retrieve ::
  "Env \<Rightarrow> ServerState \<Rightarrow> RetrievalRequest \<Rightarrow> event list \<times> (exn + RetrievalResponse)" where
  "post_retrieve env st body =
     (if RetrievalRequest_valid body then retrieve env st body
      else ([], Inl RequestValidationError))"

subsection \<open>The file system and the upload\<close>

text \<open>
  The files that exist, by path, with their bytes, and the calls made so far.
  \<^verbatim>\<open>os.unlink\<close> removes an existing file and raises on a missing one.
\<close>

record world =
  files :: "string \<Rightarrow> nat list option"
  events :: "event list"

text \<open>
  The upload: its file name, if any, and what \<^verbatim>\<open>await audio.read()\<close> gives, the
  bytes or an exception.
\<close>

record UploadFile =
  upload_filename :: "string option"
  upload_read :: "string + nat list"

definition log_event :: "event \<Rightarrow> world \<Rightarrow> world" where
  "log_event e w = w\<lparr>events := events w @ [e]\<rparr>"

definition os_path_exists :: "world \<Rightarrow> string \<Rightarrow> bool" where
  "os_path_exists w path \<longleftrightarrow> files w path \<noteq> None"

definition os_unlink :: "string \<Rightarrow> world \<Rightarrow> world \<times> (string + unit)" where
  "os_unlink path w =
     (case files w path of
        None \<Rightarrow> (w, Inl ''No such file or directory'')
      | Some _ \<Rightarrow>
          (w\<lparr>files := (files w)(path := None), events := events w @ [Unlinked path]\<rparr>,
           Inr ()))"

text \<open>\<^verbatim>\<open>if os.path.exists(temp_path): os.unlink(temp_path)\<close>\<close>

definition unlink_if_exists :: "string \<Rightarrow> world \<Rightarrow> world \<times> (string + unit)" where
  "unlink_if_exists path w =
     (if os_path_exists w path then os_unlink path w else (w, Inr ()))"

subsection \<open>Strings\<close>

text \<open>\<^verbatim>\<open>str.strip()\<close> on the ASCII white space characters.\<close>

definition py_isspace :: "char \<Rightarrow> bool" where
  "py_isspace c \<longleftrightarrow>
     c \<in> set [CHR '' '', CHR 0x09, CHR 0x0A, CHR 0x0B, CHR 0x0C, CHR 0x0D,
               CHR 0x1C, CHR 0x1D, CHR 0x1E, CHR 0x1F]"

definition py_strip :: "string \<Rightarrow> string" where
  "py_strip s = rev (dropWhile py_isspace (rev (dropWhile py_isspace s)))"

definition key_error :: "string \<Rightarrow> string" where
  "key_error key = [CHR 0x27] @ key @ [CHR 0x27]"

subsection \<open>\<^verbatim>\<open>POST /transcribe\<close>\<close>

text \<open>
  Lines 451 to 459: the suffix, the temporary file (created by entering the
  \<^verbatim>\<open>with\<close> block), reading the upload, writing it. \<^verbatim>\<open>temp_path\<close> is bound by
  the last statement of the block, so a read that raises leaves it unbound: the result
  is then \<open>Inl\<close>, and carries no path. Creating the file and writing to it are taken
  to succeed.
\<close>

definition upload_suffix :: "Env \<Rightarrow> UploadFile \<Rightarrow> string" where
  "upload_suffix env audio =
     (case upload_filename audio of
        None \<Rightarrow> ''.wav''
      | Some name \<Rightarrow>
          if name = [] then ''.wav''
          else (let ext = splitext_ext env name in if ext = [] then ''.wav'' else ext))"

definition save_upload ::
  "Env \<Rightarrow> UploadFile \<Rightarrow> world \<Rightarrow> world \<times> (string + string \<times> nat list)" where
  "save_upload env audio w =
     (let suffix = upload_suffix env audio;
          name = temp_name env suffix;
          w1 = log_event (TempCreated name) (w\<lparr>files := (files w)(name \<mapsto> [])\<rparr>);
          w2 = log_event UploadRead w1
      in case upload_read audio of
           Inl e \<Rightarrow> (w2, Inl e)
         | Inr content \<Rightarrow>
             (w2\<lparr>files := (files w2)(name \<mapsto> content)\<rparr>, Inr (name, content)))"

text \<open>
  Lines 473 to 494 on the bytes of the audio file: load, process, generate, decode, and
  take the first transcription of the batch.
\<close>

definition indic_pipeline ::
  "Env \<Rightarrow> (real list \<Rightarrow> string + real list) \<times> (nat list list \<Rightarrow> string + string list)
     \<Rightarrow> (real list \<Rightarrow> string + nat list list) \<Rightarrow> nat list \<Rightarrow> string + string" where
  "indic_pipeline env processor generate data =
     (case librosa_load env data of
        Inl e \<Rightarrow> Inl e
      | Inr audio_array \<Rightarrow>
          (case fst processor audio_array of
             Inl e \<Rightarrow> Inl e
           | Inr inputs \<Rightarrow>
               (case generate inputs of
                  Inl e \<Rightarrow> Inl e
                | Inr generated_ids \<Rightarrow>
                    (case snd processor generated_ids of
                       Inl e \<Rightarrow> Inl e
                     | Inr decoded \<Rightarrow> py_getitem decoded 0))))"

text \<open>The same, reading the file at \<^verbatim>\<open>temp_path\<close>; a missing file raises.\<close>

definition run_indicseamless ::
  "Env \<Rightarrow> (real list \<Rightarrow> string + real list) \<times> (nat list list \<Rightarrow> string + string list)
     \<Rightarrow> (real list \<Rightarrow> string + nat list list) \<Rightarrow> string \<Rightarrow> world \<Rightarrow> string + string" where
  "run_indicseamless env processor generate temp_path w =
     (case files w temp_path of
        None \<Rightarrow> Inl ''No such file or directory''
      | Some data \<Rightarrow> indic_pipeline env processor generate data)"

text \<open>Lines 498 to 504: the language of the transcript, Hindi unless detected.\<close>

definition detect_transcript_language :: "Env \<Rightarrow> string \<Rightarrow> world \<Rightarrow> world \<times> string" where
  "detect_transcript_language env transcription w =
     (if LANGDETECT_AVAILABLE env then
        (log_event (Detect transcription) w,
         (case detect env transcription of Detected l \<Rightarrow> l | _ \<Rightarrow> ''hi''))
      else (w, ''hi''))"

text \<open>
  Lines 468 to 517, the body of the inner \<^verbatim>\<open>try\<close> of the primary model: \<open>Inl\<close> is
  the exception that the handler of lines 519 to 522 catches.
\<close>

definition try_indicseamless ::
  "Env \<Rightarrow> (real list \<Rightarrow> string + real list) \<times> (nat list list \<Rightarrow> string + string list)
     \<Rightarrow> (real list \<Rightarrow> string + nat list list) \<Rightarrow> string \<Rightarrow> world
     \<Rightarrow> world \<times> (string + TranscriptionResponse)" where
  "try_indicseamless env processor generate temp_path w =
     (let w1 = log_event (ModelRun Primary temp_path) w in
      case run_indicseamless env processor generate temp_path w1 of
        Inl e \<Rightarrow> (w1, Inl e)
      | Inr transcription \<Rightarrow>
          (case detect_transcript_language env transcription w1 of
             (w2, detected_lang) \<Rightarrow>
               (case os_unlink temp_path w2 of
                  (w3, Inl e) \<Rightarrow> (w3, Inl e)
                | (w3, Inr _) \<Rightarrow>
                    (w3,
                     Inr \<lparr>resp_text = py_strip transcription,
                          language = detected_lang,
                          confidence = Some 0.85,
                          segments = []\<rparr>))))"

text \<open>Lines 553 to 560: the segments of the response.\<close>

fun out_segments :: "whisper_segment list \<Rightarrow> string + segment list" where
  "out_segments [] = Inr []"
| "out_segments (seg # rest) =
     (case ws_start seg of
        None \<Rightarrow> Inl (key_error ''start'')
      | Some s \<Rightarrow>
          (case ws_end seg of
             None \<Rightarrow> Inl (key_error ''end'')
           | Some e \<Rightarrow>
               (case ws_text seg of
                  None \<Rightarrow> Inl (key_error ''text'')
                | Some t \<Rightarrow>
                    (case out_segments rest of
                       Inl err \<Rightarrow> Inl err
                     | Inr segs \<Rightarrow>
                         Inr (\<lparr>seg_start = s, seg_end = e, seg_text = py_strip t\<rparr> # segs)))))"

text \<open>Lines 537 to 561: confidence and response from the result of Whisper.\<close>

definition whisper_response :: "whisper_result \<Rightarrow> string + TranscriptionResponse" where
  "whisper_response result =
     (let segs = (case w_segments result of None \<Rightarrow> [] | Some l \<Rightarrow> l);
          avg_confidence =
            (if segs \<noteq> [] then
               (let confidences =
                      map (\<lambda>seg. case ws_no_speech_prob seg of None \<Rightarrow> 0 | Some p \<Rightarrow> p) segs
                in 1 - sum_list confidences / real (length confidences))
             else 0.8)
      in case w_text result of
           None \<Rightarrow> Inl (key_error ''text'')
         | Some t \<Rightarrow>
             (case out_segments segs of
                Inl e \<Rightarrow> Inl e
              | Inr out \<Rightarrow>
                  Inr \<lparr>resp_text = py_strip t,
                       language = (case w_language result of None \<Rightarrow> ''unknown'' | Some l \<Rightarrow> l),
                       confidence = Some avg_confidence,
                       segments = out\<rparr>))"

text \<open>Line 530: Whisper reads the file at \<^verbatim>\<open>temp_path\<close>; a missing file raises.\<close>

definition run_whisper ::
  "(nat list \<Rightarrow> string + whisper_result) \<Rightarrow> string \<Rightarrow> world \<Rightarrow> string + whisper_result" where
  "run_whisper transcribe temp_path w =
     (case files w temp_path of
        None \<Rightarrow> Inl ''No such file or directory''
      | Some data \<Rightarrow> transcribe data)"

text \<open>
  Lines 526 to 561, the body of the inner \<^verbatim>\<open>try\<close> of the fallback model: \<open>Inl\<close> is
  the exception that the handler of lines 563 to 570 catches.
\<close>

definition try_whisper ::
  "(nat list \<Rightarrow> string + whisper_result) \<Rightarrow> string \<Rightarrow> world
     \<Rightarrow> world \<times> (string + TranscriptionResponse)" where
  "try_whisper transcribe temp_path w =
     (let w1 = log_event (ModelRun Fallback temp_path) w in
      case run_whisper transcribe temp_path w1 of
        Inl e \<Rightarrow> (w1, Inl e)
      | Inr result \<Rightarrow>
          (case os_unlink temp_path w1 of
             (w2, Inl e) \<Rightarrow> (w2, Inl e)
           | (w2, Inr _) \<Rightarrow> (w2, whisper_response result)))"

text \<open>Lines 466 to 522: the primary model, when both of its parts are loaded.\<close>

definition primary_step ::
  "Env \<Rightarrow> ServerState \<Rightarrow> string \<Rightarrow> world \<Rightarrow> world \<times> TranscriptionResponse option" where
  "primary_step env st temp_path w =
     (case indicseamless_model st of
        None \<Rightarrow> (w, None)
      | Some generate \<Rightarrow>
          (case indicseamless_processor st of
             None \<Rightarrow> (w, None)
           | Some processor \<Rightarrow>
               (case try_indicseamless env processor generate temp_path w of
                  (w1, Inr response) \<Rightarrow> (w1, Some response)
                | (w1, Inl indic_error) \<Rightarrow> (w1, None))))"

text \<open>Lines 524 to 578: the fallback model, or no model at all.\<close>

definition fallback_step ::
  "ServerState \<Rightarrow> string \<Rightarrow> world \<Rightarrow> world \<times> (exn + TranscriptionResponse)" where
  "fallback_step st temp_path w =
     (case whisper_model st of
        Some transcribe \<Rightarrow>
          (case try_whisper transcribe temp_path w of
             (w1, Inr response) \<Rightarrow> (w1, Inr response)
           | (w1, Inl whisper_error) \<Rightarrow>
               (case unlink_if_exists temp_path w1 of
                  (w2, Inl e) \<Rightarrow> (w2, Inl (Exception e))
                | (w2, Inr _) \<Rightarrow>
                    (w2, Inl (HTTPException 500
                               (''Whisper transcription failed: '' @ whisper_error)))))
      | None \<Rightarrow>
          (case unlink_if_exists temp_path w of
             (w2, Inl e) \<Rightarrow> (w2, Inl (Exception e))
           | (w2, Inr _) \<Rightarrow> (w2, Inl (HTTPException 501 ''No STT model available''))))"

definition stt_chain ::
  "Env \<Rightarrow> ServerState \<Rightarrow> string \<Rightarrow> world \<Rightarrow> world \<times> (exn + TranscriptionResponse)" where
  "stt_chain env st temp_path w =
     (case primary_step env st temp_path w of
        (w1, Some response) \<Rightarrow> (w1, Inr response)
      | (w1, None) \<Rightarrow> fallback_step st temp_path w1)"

text \<open>
  Lines 441 to 586. The handlers of lines 580 to 586: an \<^verbatim>\<open>HTTPException\<close> is
  raised again as it is; any other exception removes the file when \<^verbatim>\<open>temp_path\<close>
  is bound and the file exists, and becomes a 500.
\<close>

definition transcribe_audio ::
  "Env \<Rightarrow> ServerState \<Rightarrow> UploadFile \<Rightarrow> world \<Rightarrow> world \<times> (exn + TranscriptionResponse)" where
  "transcribe_audio env st audio w =
     (if \<not> WHISPER_AVAILABLE env \<and> indicseamless_model st = None
      then (w, Inl (HTTPException 501
                     ''No STT model available. Install Whisper or IndicSeamless.''))
      else
        (case save_upload env audio w of
           (w1, Inl e) \<Rightarrow> (w1, Inl (HTTPException 500 (''Transcription failed: '' @ e)))
         | (w1, Inr (temp_path, content)) \<Rightarrow>
             (case stt_chain env st temp_path w1 of
                (w2, Inl (Exception e)) \<Rightarrow>
                  (case unlink_if_exists temp_path w2 of
                     (w3, Inl e') \<Rightarrow> (w3, Inl (Exception e'))
                   | (w3, Inr _) \<Rightarrow>
                       (w3, Inl (HTTPException 500 (''Transcription failed: '' @ e))))
              | (w2, r) \<Rightarrow> (w2, r))))"


subsection \<open>Notions used to state the properties\<close>

text \<open>
  An entry of the search output survives the loop when its index is not the sentinel and
  its distance is not below the threshold, if there is one.
\<close>

definition survives :: "real option \<Rightarrow> real \<times> int \<Rightarrow> bool" where
  "survives thr p \<longleftrightarrow>
     snd p \<noteq> - 1 \<and> (case thr of None \<Rightarrow> True | Some t \<Rightarrow> t \<le> fst p)"

text \<open>The result an entry of the search output stands for: its chunk, with its distance as score.\<close>

definition result_at :: "ServerState \<Rightarrow> real \<times> int \<Rightarrow> string + DocumentResult" where
  "result_at st p = map_sum id (\<lambda>c. make_result c (fst p)) (chunk_at st (snd p))"

text \<open>The calls a handler added to the world, and among them the ones on files and on models.\<close>

definition new_events :: "world \<Rightarrow> world \<Rightarrow> event list" where
  "new_events w w' = drop (length (events w)) (events w')"

definition file_events :: "event list \<Rightarrow> event list" where
  "file_events evs =
     filter (\<lambda>e. case e of TempCreated _ \<Rightarrow> True | Unlinked _ \<Rightarrow> True | _ \<Rightarrow> False) evs"

definition model_runs :: "event list \<Rightarrow> event list" where
  "model_runs evs = filter (\<lambda>e. case e of ModelRun _ _ \<Rightarrow> True | _ \<Rightarrow> False) evs"

text \<open>
  What the caller gets when the fallback model is the one that answers (lines 526 to
  570): its response, or a 500 with the message of what it raised.
\<close>

definition fallback_outcome ::
  "(nat list \<Rightarrow> string + whisper_result) \<Rightarrow> nat list \<Rightarrow> exn + TranscriptionResponse" where
  "fallback_outcome transcribe data =
     (case transcribe data of
        Inl e \<Rightarrow> Inl (HTTPException 500 (''Whisper transcription failed: '' @ e))
      | Inr result \<Rightarrow>
          (case whisper_response result of
             Inl e \<Rightarrow> Inl (HTTPException 500 (''Whisper transcription failed: '' @ e))
           | Inr response \<Rightarrow> Inr response))"

text \<open>
  What the primary model makes of the audio, when both of its parts are loaded (lines 467
  to 494), and what the caller gets when it answers (lines 498 to 517).
\<close>

definition primary_attempt :: "Env \<Rightarrow> ServerState \<Rightarrow> nat list \<Rightarrow> (string + string) option" where
  "primary_attempt env st data =
     (case indicseamless_model st of
        None \<Rightarrow> None
      | Some generate \<Rightarrow>
          (case indicseamless_processor st of
             None \<Rightarrow> None
           | Some processor \<Rightarrow> Some (indic_pipeline env processor generate data)))"

definition primary_response :: "Env \<Rightarrow> string \<Rightarrow> TranscriptionResponse" where
  "primary_response env transcription =
     \<lparr>resp_text = py_strip transcription,
      language =
        (if LANGDETECT_AVAILABLE env
         then (case detect env transcription of Detected l \<Rightarrow> l | _ \<Rightarrow> ''hi'')
         else ''hi''),
      confidence = Some 0.85,
      segments = []\<rparr>"

definition detect_events :: "Env \<Rightarrow> string \<Rightarrow> event list" where
  "detect_events env transcription =
     (if LANGDETECT_AVAILABLE env then [Detect transcription] else [])"

text \<open>The mean of the \<^verbatim>\<open>no_speech_prob\<close> of the segments, \<open>0\<close> standing for a missing one.\<close>

definition mean_no_speech_prob :: "whisper_segment list \<Rightarrow> real" where
  "mean_no_speech_prob segs =
     sum_list (map (\<lambda>seg. case ws_no_speech_prob seg of None \<Rightarrow> 0 | Some p \<Rightarrow> p) segs)
       / real (length segs)"

subsection \<open>A small deployment, for concrete runs\<close>

definition ex_chunk :: "int \<Rightarrow> string \<Rightarrow> DocumentChunk" where
  "ex_chunk n t =
     \<lparr>chunk_id = n, filename = ''policy.pdf'', page_num = 1, chunk_text = t, excerpt = t,
      char_start = 0, char_end = int (length t)\<rparr>"

text \<open>
  An index that knows the given hits and pads its answer to \<open>k\<close> entries with the
  sentinel, as FAISS does.
\<close>

definition ex_search ::
  "(real \<times> int) list \<Rightarrow> real list \<Rightarrow> int \<Rightarrow> string + (real list \<times> int list)" where
  "ex_search hits q n =
     (let row = take (nat n)
                  (hits @ replicate (nat n) (- 340282346638528859811704183484516925440, - 1))
      in Inr (map fst row, map snd row))"

definition ex_state :: "(real \<times> int) list \<Rightarrow> ServerState" where
  "ex_state hits =
     \<lparr>index = Some (ex_search hits),
      metadata = Some \<lparr>chunks = [ex_chunk 0 ''loan eligibility'', ex_chunk 1 ''interest rate'']\<rparr>,
      model = Some (\<lambda>q. Inr [1, 0]),
      whisper_model = None,
      indicseamless_processor = None,
      indicseamless_model = None,
      ready = True\<rparr>"

definition ex_env :: Env where
  "ex_env =
     \<lparr>WHISPER_AVAILABLE = False, LANGDETECT_AVAILABLE = True,
      detect = (\<lambda>s. Detected ''en''), normalize_L2 = (\<lambda>v. v),
      librosa_load = (\<lambda>d. Inr (map real d)), splitext_ext = (\<lambda>s. ''.wav''),
      temp_name = (\<lambda>suffix. ''/tmp/tmpa1'' @ suffix), elapsed_ms = 12\<rparr>"

definition ex_request :: "real option \<Rightarrow> RetrievalRequest" where
  "ex_request thr = \<lparr>query = ''loan'', k = 5, lang_hint = None, threshold = thr\<rparr>"

definition ex_audio :: UploadFile where
  "ex_audio = \<lparr>upload_filename = Some ''recording.wav'', upload_read = Inr [82, 73, 70, 70]\<rparr>"

definition ex_audio_unreadable :: UploadFile where
  "ex_audio_unreadable =
     \<lparr>upload_filename = Some ''recording.wav'', upload_read = Inl ''read of closed file''\<rparr>"

definition ex_world :: world where
  "ex_world = \<lparr>files = (\<lambda>path. None), events = []\<rparr>"

definition ex_processor ::
  "(real list \<Rightarrow> string + real list) \<times> (nat list list \<Rightarrow> string + string list)" where
  "ex_processor = ((\<lambda>audio_array. Inr audio_array), (\<lambda>ids. Inr (map (\<lambda>_. '' namaste '') ids)))"

definition ex_generate :: "bool \<Rightarrow> real list \<Rightarrow> string + nat list list" where
  "ex_generate works inputs = (if works then Inr [[7, 2]] else Inl ''CUDA out of memory'')"

definition ex_whisper_result :: whisper_result where
  "ex_whisper_result =
     \<lparr>w_text = Some '' hello world'',
      w_language = Some ''en'',
      w_segments = Some
        [\<lparr>ws_start = Some 0, ws_end = Some 1, ws_text = Some '' hello'',
          ws_no_speech_prob = Some (1/10)\<rparr>,
         \<lparr>ws_start = Some 1, ws_end = Some 2, ws_text = Some '' world'',
          ws_no_speech_prob = Some (1/2)\<rparr>]\<rparr>"

definition ex_whisper :: "bool \<Rightarrow> nat list \<Rightarrow> string + whisper_result" where
  "ex_whisper works data = (if works then Inr ex_whisper_result else Inl ''Invalid data'')"

text \<open>The state as \<^verbatim>\<open>ServerState.__init__\<close> leaves it, then with speech models.\<close>

definition ex_initial_state :: ServerState where
  "ex_initial_state =
     \<lparr>index = None, metadata = None, model = None, whisper_model = None,
      indicseamless_processor = None, indicseamless_model = None, ready = False\<rparr>"

definition ex_stt_state ::
  "(real list \<Rightarrow> string + nat list list) option \<Rightarrow> (nat list \<Rightarrow> string + whisper_result) option
     \<Rightarrow> ServerState" where
  "ex_stt_state primary fallback =
     ex_initial_state
       \<lparr>whisper_model := fallback,
        indicseamless_processor := Some ex_processor,
        indicseamless_model := primary,
        ready := True\<rparr>"

definition ex_stt_env :: Env where
  "ex_stt_env = ex_env\<lparr>WHISPER_AVAILABLE := True\<rparr>"


section \<open>Properties of \<^verbatim>\<open>retrieve\<close>\<close>

subsection \<open>The loop\<close>

lemma score_make_result: "score (make_result c d) = d"
  by (simp add: make_result_def)

text \<open>
  When the loop returns, every index that is not the sentinel was resolved, the chunk
  store was read once for each of them, in order, and the results are the survivors, in
  order.
\<close>

lemma build_results_Inr:
  "build_results st thr ps (evs, res) = (evs', Inr r) \<Longrightarrow>
     (\<forall>p\<in>set ps. snd p \<noteq> - 1 \<longrightarrow> (\<exists>c. chunk_at st (snd p) = Inr c)) \<and>
     evs' = evs @ map (ChunkLookup \<circ> snd) (filter (\<lambda>p. snd p \<noteq> - 1) ps) \<and>
     r = res @ map (\<lambda>p. make_result (projr (chunk_at st (snd p))) (fst p))
                 (filter (survives thr) ps)"
proof (induction ps arbitrary: evs res)
  case Nil
  then show ?case by simp
next
  case (Cons p ps)
  obtain d i where p: "p = (d, i)" by (cases p)
  show ?case
  proof (cases "i = - 1")
    case True
    with Cons p show ?thesis by (simp add: survives_def)
  next
    case False
    show ?thesis
    proof (cases "chunk_at st i")
      case (Inl e)
      with Cons.prems p False show ?thesis by simp
    next
      case (Inr c)
      show ?thesis
      proof (cases "thr \<noteq> None \<and> d < the thr")
        case True
        with Cons.prems p False Inr
        have "build_results st thr ps (evs @ [ChunkLookup i], res) = (evs', Inr r)"
          by (auto simp: Let_def split: if_splits)
        from Cons.IH [OF this] True p False Inr show ?thesis
          by (auto simp: survives_def)
      next
        case keep: False
        with Cons.prems p False Inr
        have "build_results st thr ps (evs @ [ChunkLookup i], res @ [make_result c d]) =
                (evs', Inr r)"
          by (auto simp: Let_def split: if_splits)
        from Cons.IH [OF this] keep p False Inr show ?thesis
          by (auto simp: survives_def split: option.splits)
      qed
    qed
  qed
qed

text \<open>The loop returns when every index that is not the sentinel resolves.\<close>

lemma build_results_total:
  "\<forall>p\<in>set ps. snd p \<noteq> - 1 \<longrightarrow> (\<exists>c. chunk_at st (snd p) = Inr c) \<Longrightarrow>
   \<exists>evs' r. build_results st thr ps (evs, res) = (evs', Inr r)"
proof (induction ps arbitrary: evs res)
  case Nil
  then show ?case by simp
next
  case (Cons p ps)
  obtain d i where p: "p = (d, i)" by (cases p)
  from Cons.prems
  have rest: "\<forall>p\<in>set ps. snd p \<noteq> - 1 \<longrightarrow> (\<exists>c. chunk_at st (snd p) = Inr c)"
    by simp
  show ?case
  proof (cases "i = - 1")
    case True
    with Cons.IH [OF rest] p show ?thesis by simp
  next
    case False
    with Cons.prems p obtain c where c: "chunk_at st i = Inr c" by auto
    with Cons.IH [OF rest] p False show ?thesis by (simp add: Let_def)
  qed
qed

lemma build_results_no_sentinel_lookup:
  "ChunkLookup (- 1) \<notin> set evs \<Longrightarrow>
   ChunkLookup (- 1) \<notin> set (fst (build_results st thr ps (evs, res)))"
proof (induction ps arbitrary: evs res)
  case Nil
  then show ?case by simp
next
  case (Cons p ps)
  obtain d i where p: "p = (d, i)" by (cases p)
  show ?case
  proof (cases "i = - 1")
    case True
    with Cons p show ?thesis by simp
  next
    case False
    then have ext: "ChunkLookup (- 1) \<notin> set (evs @ [ChunkLookup i])"
      using Cons.prems by simp
    show ?thesis
      using p False Cons.IH [OF ext] ext
      by (cases "chunk_at st i") (simp_all add: Let_def)
  qed
qed

lemma filter_survives_Some:
  "filter (survives (Some t)) ps = filter (\<lambda>p. t \<le> fst p) (filter (survives None) ps)"
  by (induction ps) (auto simp: survives_def)

lemma filter_survives_nonsentinel:
  "filter (survives thr) ps =
     filter (\<lambda>p. case thr of None \<Rightarrow> True | Some t \<Rightarrow> t \<le> fst p)
       (filter (\<lambda>p. snd p \<noteq> - 1) ps)"
  by (induction ps) (auto simp: survives_def)

lemma result_at_survivor:
  assumes "\<forall>p\<in>set ps. snd p \<noteq> - 1 \<longrightarrow> (\<exists>c. chunk_at st (snd p) = Inr c)"
  shows "map (result_at st) (filter (survives thr) ps) =
         map Inr (map (\<lambda>p. make_result (projr (chunk_at st (snd p))) (fst p))
                    (filter (survives thr) ps))"
  using assms by (induction ps) (auto simp: result_at_def survives_def)

subsection \<open>The handler\<close>

lemma retrieve_Inr:
  assumes "retrieve env st request = (evs, Inr resp)"
  shows "\<exists>evs1 dl evs2 distances indices.
           ready st \<and>
           detect_query_language env (query request) = (evs1, Inr dl) \<and>
           index_search env st request = (evs2, Inr (distances, indices)) \<and>
           build_results st (threshold request) (zip distances indices) (evs1 @ evs2, []) =
             (evs, Inr (results resp)) \<and>
           resp = \<lparr>resp_query = query request, results = results resp,
                   num_results = length (results resp), detected_language = dl,
                   processing_time_ms = elapsed_ms env\<rparr>"
  using assms
  by (auto simp: retrieve_def split: if_splits prod.splits sum.splits)

lemma retrieve_ok:
  assumes "ready st"
    and "detect_query_language env (query request) = (evs1, Inr dl)"
    and "index_search env st request = (evs2, Inr (distances, indices))"
    and "build_results st (threshold request) (zip distances indices) (evs1 @ evs2, []) =
             (evs, Inr res)"
  shows "retrieve env st request =
           (evs, Inr \<lparr>resp_query = query request, results = res,
                   num_results = length res, detected_language = dl,
                   processing_time_ms = elapsed_ms env\<rparr>)"
  using assms by (simp add: retrieve_def)

lemma index_search_threshold:
  "index_search env st (request\<lparr>threshold := t\<rparr>) = index_search env st request"
  by (simp add: index_search_def split: option.splits sum.splits)

subsection \<open>Concrete runs\<close>

lemma ex_search_5:
  "ex_search [a, b] q 5 =
     Inr ([fst a, fst b, - 340282346638528859811704183484516925440,
           - 340282346638528859811704183484516925440,
           - 340282346638528859811704183484516925440],
          [snd a, snd b, - 1, - 1, - 1])"
  by (simp add: ex_search_def eval_nat_numeral)

lemma ex_index_search:
  "index_search ex_env (ex_state [a, b]) (ex_request thr) =
     ([Encode ''loan'', NormalizeL2, Search 5],
      Inr ([fst a, fst b, - 340282346638528859811704183484516925440,
            - 340282346638528859811704183484516925440,
            - 340282346638528859811704183484516925440],
           [snd a, snd b, - 1, - 1, - 1]))"
  by (simp add: index_search_def ex_search_5 ex_state_def ex_env_def ex_request_def)

lemma ex_retrieve_all:
  "retrieve ex_env (ex_state [(9/10, 1), (1/2, 0)]) (ex_request None) =
     ([Detect ''loan'', Encode ''loan'', NormalizeL2, Search 5, ChunkLookup 1, ChunkLookup 0],
      Inr \<lparr>resp_query = ''loan'',
           results = [make_result (ex_chunk 1 ''interest rate'') (9/10),
                      make_result (ex_chunk 0 ''loan eligibility'') (1/2)],
           num_results = 2, detected_language = Some ''en'', processing_time_ms = 12\<rparr>)"
  by (simp add: retrieve_def detect_query_language_def index_search_def ex_search_5
        chunk_at_def py_getitem_def ex_state_def ex_env_def ex_request_def)

lemma ex_retrieve_thr:
  "retrieve ex_env (ex_state [(9/10, 1), (1/2, 0)]) (ex_request (Some (3/5))) =
     ([Detect ''loan'', Encode ''loan'', NormalizeL2, Search 5, ChunkLookup 1, ChunkLookup 0],
      Inr \<lparr>resp_query = ''loan'',
           results = [make_result (ex_chunk 1 ''interest rate'') (9/10)],
           num_results = 1, detected_language = Some ''en'', processing_time_ms = 12\<rparr>)"
  by (simp add: retrieve_def detect_query_language_def index_search_def ex_search_5
        chunk_at_def py_getitem_def ex_state_def ex_env_def ex_request_def)

subsection \<open>Order of the results\<close>

text \<open>
  C4. The results of a retrieval call are the entries of the index search that survive
  the loop, in the order of the search: the list of their scores is a subsequence of the
  row of distances, two survivors keep the relative order the search gave them, and
  nothing is sorted again. When the search returns its valid neighbours by descending
  distance, the results are therefore sorted by descending score.
\<close>

theorem retrieve_preserves_search_order:
  assumes ret: "retrieve env st request = (evs, Inr resp)"
  shows "\<exists>distances indices.
           snd (index_search env st request) = Inr (distances, indices) \<and>
           map Inr (results resp) =
             map (result_at st) (filter (survives (threshold request)) (zip distances indices)) \<and>
           map score (results resp) =
             map fst (filter (survives (threshold request)) (zip distances indices)) \<and>
           subseq (map score (results resp)) distances \<and>
           (sorted_wrt (\<lambda>a b. b \<le> a)
              (map fst (filter (\<lambda>p. snd p \<noteq> - 1) (zip distances indices))) \<longrightarrow>
            sorted_wrt (\<lambda>a b. b \<le> a) (map score (results resp)))"
proof -
  from retrieve_Inr [OF ret] obtain evs1 dl evs2 distances indices where
    det: "detect_query_language env (query request) = (evs1, Inr dl)" and
    srch: "index_search env st request = (evs2, Inr (distances, indices))" and
    br: "build_results st (threshold request) (zip distances indices) (evs1 @ evs2, []) =
           (evs, Inr (results resp))"
    by blast
  let ?ps = "zip distances indices"
  let ?mk = "\<lambda>p. make_result (projr (chunk_at st (snd p))) (fst p)"
  let ?thr = "threshold request"
  from build_results_Inr [OF br] have
    ok: "\<forall>p\<in>set ?ps. snd p \<noteq> - 1 \<longrightarrow> (\<exists>c. chunk_at st (snd p) = Inr c)" and
    r: "results resp = map ?mk (filter (survives ?thr) ?ps)"
    by simp_all
  have a: "map Inr (results resp) = map (result_at st) (filter (survives ?thr) ?ps)"
    using result_at_survivor [OF ok, of ?thr] r by simp
  have b: "map score (results resp) = map fst (filter (survives ?thr) ?ps)"
    unfolding r by (simp add: o_def score_make_result)
  have "subseq (map fst (filter (survives ?thr) ?ps)) (map fst ?ps)"
    by (rule subseq_map) simp
  moreover have "subseq (map fst ?ps) distances"
    by (simp add: map_fst_zip_take prefix_imp_subseq take_is_prefix)
  ultimately have c: "subseq (map score (results resp)) distances"
    unfolding b by (rule subseq_order.trans)
  have d: "sorted_wrt (\<lambda>a b. b \<le> a) (map score (results resp))"
    if "sorted_wrt (\<lambda>a b. b \<le> a) (map fst (filter (\<lambda>p. snd p \<noteq> - 1) ?ps))"
  proof -
    from that have "sorted_wrt (\<lambda>p q. fst q \<le> fst p) (filter (\<lambda>p. snd p \<noteq> - 1) ?ps)"
      by (simp add: sorted_wrt_map)
    then have "sorted_wrt (\<lambda>p q. fst q \<le> fst p) (filter (survives ?thr) ?ps)"
      unfolding filter_survives_nonsentinel [of ?thr] by (rule sorted_wrt_filter)
    then show ?thesis unfolding b by (simp add: sorted_wrt_map)
  qed
  from srch a b c d show ?thesis by auto
qed

theorem retrieve_preserves_search_order_witness:
  "\<not> isl (snd (retrieve ex_env (ex_state [(9/10, 1), (1/2, 0)]) (ex_request None))) \<and>
   sorted_wrt (\<lambda>a b. b \<le> a)
     (map fst (filter (\<lambda>p. snd p \<noteq> - 1)
        (zip [9/10, 1/2, - 340282346638528859811704183484516925440 :: real] [1, 0, - 1 :: int]))) \<and>
   map score (results (projr (snd
     (retrieve ex_env (ex_state [(9/10, 1), (1/2, 0)]) (ex_request None))))) = [9/10, 1/2] \<and>
   sorted_wrt (\<lambda>a b. b \<le> a) (map score (results (projr (snd
     (retrieve ex_env (ex_state [(9/10, 1), (1/2, 0)]) (ex_request None))))))"
  using retrieve_preserves_search_order [OF ex_retrieve_all]
  by (simp add: ex_retrieve_all ex_index_search score_make_result survives_def)

subsection \<open>The threshold\<close>

text \<open>
  C5. When the request sets a threshold, every returned result has a score that is at
  least the threshold, and the returned list is the list the same call returns without a
  threshold, with exactly the results of score below the threshold removed.
\<close>

theorem retrieve_threshold_filter:
  assumes thr: "threshold request = Some t"
    and ret: "retrieve env st request = (evs, Inr resp)"
  shows "(\<forall>r\<in>set (results resp). t \<le> score r) \<and>
         (\<exists>resp0. retrieve env st (request\<lparr>threshold := None\<rparr>) = (evs, Inr resp0) \<and>
                  results resp = filter (\<lambda>r. t \<le> score r) (results resp0))"
proof -
  from retrieve_Inr [OF ret] obtain evs1 dl evs2 distances indices where
    rdy: "ready st" and
    det: "detect_query_language env (query request) = (evs1, Inr dl)" and
    srch: "index_search env st request = (evs2, Inr (distances, indices))" and
    br: "build_results st (threshold request) (zip distances indices) (evs1 @ evs2, []) =
           (evs, Inr (results resp))"
    by blast
  let ?ps = "zip distances indices"
  let ?mk = "\<lambda>p. make_result (projr (chunk_at st (snd p))) (fst p)"
  from build_results_Inr [OF br] thr have
    ok: "\<forall>p\<in>set ?ps. snd p \<noteq> - 1 \<longrightarrow> (\<exists>c. chunk_at st (snd p) = Inr c)" and
    ev: "evs = (evs1 @ evs2) @ map (ChunkLookup \<circ> snd) (filter (\<lambda>p. snd p \<noteq> - 1) ?ps)" and
    r: "results resp = map ?mk (filter (survives (Some t)) ?ps)"
    by simp_all
  from build_results_total [OF ok, of None "evs1 @ evs2" "[]"] obtain evs0 r0 where
    br0: "build_results st None ?ps (evs1 @ evs2, []) = (evs0, Inr r0)"
    by blast
  from build_results_Inr [OF br0] have
    ev0: "evs0 = (evs1 @ evs2) @ map (ChunkLookup \<circ> snd) (filter (\<lambda>p. snd p \<noteq> - 1) ?ps)" and
    r0: "r0 = map ?mk (filter (survives None) ?ps)"
    by simp_all
  have flt: "results resp = filter (\<lambda>r. t \<le> score r) r0"
    unfolding r r0 filter_survives_Some
    by (simp add: filter_map o_def score_make_result)
  have "retrieve env st (request\<lparr>threshold := None\<rparr>) =
          (evs, Inr \<lparr>resp_query = query request, results = r0,
                   num_results = length r0, detected_language = dl,
                   processing_time_ms = elapsed_ms env\<rparr>)"
    using retrieve_ok [of st env "request\<lparr>threshold := None\<rparr>" evs1 dl evs2
                         distances indices evs0 r0]
      rdy det srch br0 ev ev0 by (simp add: index_search_threshold)
  with flt show ?thesis by auto
qed

theorem retrieve_threshold_filter_witness:
  "threshold (ex_request (Some (3/5))) = Some (3/5) \<and>
   \<not> isl (snd (retrieve ex_env (ex_state [(9/10, 1), (1/2, 0)]) (ex_request (Some (3/5))))) \<and>
   map score (results (projr (snd
     (retrieve ex_env (ex_state [(9/10, 1), (1/2, 0)]) (ex_request (Some (3/5))))))) = [9/10] \<and>
   map score (results (projr (snd
     (retrieve ex_env (ex_state [(9/10, 1), (1/2, 0)]) (ex_request None))))) = [9/10, 1/2]"
proof -
  have thr: "threshold (ex_request (Some (3/5))) = Some (3/5)"
    by (simp add: ex_request_def)
  have same: "(ex_request (Some (3/5)))\<lparr>threshold := None\<rparr> = ex_request None"
    by (simp add: ex_request_def)
  from retrieve_threshold_filter [OF thr ex_retrieve_thr] show ?thesis
    by (simp add: thr same ex_retrieve_thr ex_retrieve_all score_make_result)
qed

subsection \<open>The sentinel\<close>

text \<open>
  C6. An entry of the search output whose index is the sentinel \<open>- 1\<close> is skipped before
  the chunk store is read: the store is never read at \<open>- 1\<close>, whatever the call returns;
  the results of a call that returns are the survivors of the loop, none of which carries
  the sentinel, so there are at most as many results as valid neighbours; and a call
  whose valid neighbours all resolve returns, however many entries are sentinels.
\<close>

theorem retrieve_skips_sentinel:
  "ChunkLookup (- 1) \<notin> set (fst (retrieve env st request)) \<and>
   (\<forall>evs resp. retrieve env st request = (evs, Inr resp) \<longrightarrow>
      (\<exists>distances indices.
          snd (index_search env st request) = Inr (distances, indices) \<and>
          map Inr (results resp) =
            map (result_at st) (filter (survives (threshold request)) (zip distances indices)) \<and>
          (\<forall>p\<in>set (filter (survives (threshold request)) (zip distances indices)). snd p \<noteq> - 1) \<and>
          length (results resp) \<le> length (filter (\<lambda>p. snd p \<noteq> - 1) (zip distances indices)))) \<and>
   (\<forall>dl distances indices.
       ready st \<and> snd (detect_query_language env (query request)) = Inr dl \<and>
       snd (index_search env st request) = Inr (distances, indices) \<and>
       (\<forall>p\<in>set (zip distances indices). snd p \<noteq> - 1 \<longrightarrow> \<not> isl (chunk_at st (snd p))) \<longrightarrow>
       \<not> isl (snd (retrieve env st request)))"
proof (intro conjI allI impI)
  have det: "ChunkLookup (- 1) \<notin> set (fst (detect_query_language env q))" for q
    by (simp add: detect_query_language_def split: detect_outcome.splits)
  have srch: "ChunkLookup (- 1) \<notin> set (fst (index_search env st request))"
    by (simp add: index_search_def split: option.splits sum.splits)
  show "ChunkLookup (- 1) \<notin> set (fst (retrieve env st request))"
  proof (cases "ready st")
    case False
    then show ?thesis by (simp add: retrieve_def)
  next
    case True
    obtain evs1 r1 where d: "detect_query_language env (query request) = (evs1, r1)"
      by (cases "detect_query_language env (query request)")
    obtain evs2 r2 where s: "index_search env st request = (evs2, r2)"
      by (cases "index_search env st request")
    from det [of "query request"] d srch s
    have pre: "ChunkLookup (- 1) \<notin> set (evs1 @ evs2)" by simp
    show ?thesis
    proof (cases r1)
      case (Inl e)
      with True d pre show ?thesis by (simp add: retrieve_def)
    next
      case dl: (Inr l)
      show ?thesis
      proof (cases r2)
        case (Inl e)
        with True d s dl pre show ?thesis by (simp add: retrieve_def)
      next
        case (Inr di)
        obtain distances indices where di: "di = (distances, indices)" by (cases di)
        from build_results_no_sentinel_lookup
               [OF pre, of st "threshold request" "zip distances indices" "[]"]
        show ?thesis
          using True d s dl Inr di
          by (auto simp: retrieve_def split: prod.splits sum.splits)
      qed
    qed
  qed
next
  fix evs resp
  assume ret: "retrieve env st request = (evs, Inr resp)"
  from retrieve_Inr [OF ret] obtain evs1 dl evs2 distances indices where
    det: "detect_query_language env (query request) = (evs1, Inr dl)" and
    srch: "index_search env st request = (evs2, Inr (distances, indices))" and
    br: "build_results st (threshold request) (zip distances indices) (evs1 @ evs2, []) =
           (evs, Inr (results resp))"
    by blast
  let ?ps = "zip distances indices"
  let ?thr = "threshold request"
  from build_results_Inr [OF br] have
    ok: "\<forall>p\<in>set ?ps. snd p \<noteq> - 1 \<longrightarrow> (\<exists>c. chunk_at st (snd p) = Inr c)" and
    r: "results resp = map (\<lambda>p. make_result (projr (chunk_at st (snd p))) (fst p))
                         (filter (survives ?thr) ?ps)"
    by simp_all
  have a: "map Inr (results resp) = map (result_at st) (filter (survives ?thr) ?ps)"
    using result_at_survivor [OF ok, of ?thr] r by simp
  have b: "\<forall>p\<in>set (filter (survives ?thr) ?ps). snd p \<noteq> - 1"
    by (simp add: survives_def)
  have "length (results resp) = length (filter (survives ?thr) ?ps)"
    unfolding r by simp
  also have "\<dots> \<le> length (filter (\<lambda>p. snd p \<noteq> - 1) ?ps)"
    unfolding filter_survives_nonsentinel [of ?thr] by (rule length_filter_le)
  finally have c: "length (results resp) \<le> length (filter (\<lambda>p. snd p \<noteq> - 1) ?ps)" .
  from srch a b c
  show "\<exists>distances indices.
          snd (index_search env st request) = Inr (distances, indices) \<and>
          map Inr (results resp) =
            map (result_at st) (filter (survives (threshold request)) (zip distances indices)) \<and>
          (\<forall>p\<in>set (filter (survives (threshold request)) (zip distances indices)). snd p \<noteq> - 1) \<and>
          length (results resp) \<le> length (filter (\<lambda>p. snd p \<noteq> - 1) (zip distances indices))"
    by auto
next
  fix dl distances indices
  assume h: "ready st \<and> snd (detect_query_language env (query request)) = Inr dl \<and>
       snd (index_search env st request) = Inr (distances, indices) \<and>
       (\<forall>p\<in>set (zip distances indices). snd p \<noteq> - 1 \<longrightarrow> \<not> isl (chunk_at st (snd p)))"
  obtain evs1 where d: "detect_query_language env (query request) = (evs1, Inr dl)"
    using h by (cases "detect_query_language env (query request)") auto
  obtain evs2 where s: "index_search env st request = (evs2, Inr (distances, indices))"
    using h by (cases "index_search env st request") auto
  have ok: "\<forall>p\<in>set (zip distances indices). snd p \<noteq> - 1 \<longrightarrow> (\<exists>c. chunk_at st (snd p) = Inr c)"
  proof (intro ballI impI)
    fix p assume "p \<in> set (zip distances indices)" "snd p \<noteq> - 1"
    with h have "\<not> isl (chunk_at st (snd p))" by blast
    then show "\<exists>c. chunk_at st (snd p) = Inr c"
      by (cases "chunk_at st (snd p)") auto
  qed
  from build_results_total [OF ok, of "threshold request" "evs1 @ evs2" "[]"]
  obtain evs' r where
    "build_results st (threshold request) (zip distances indices) (evs1 @ evs2, []) = (evs', Inr r)"
    by blast
  from retrieve_ok [OF _ d s this] h
  show "\<not> isl (snd (retrieve env st request))" by simp
qed

theorem retrieve_skips_sentinel_witness:
  "ready (ex_state [(9/10, 1), (1/2, 0)]) \<and>
   snd (detect_query_language ex_env (query (ex_request None))) = Inr (Some ''en'') \<and>
   snd (index_search ex_env (ex_state [(9/10, 1), (1/2, 0)]) (ex_request None)) =
     Inr ([9/10, 1/2, - 340282346638528859811704183484516925440,
           - 340282346638528859811704183484516925440,
           - 340282346638528859811704183484516925440],
          [1, 0, - 1, - 1, - 1]) \<and>
   \<not> isl (chunk_at (ex_state [(9/10, 1), (1/2, 0)]) 1) \<and>
   \<not> isl (chunk_at (ex_state [(9/10, 1), (1/2, 0)]) 0) \<and>
   \<not> isl (snd (retrieve ex_env (ex_state [(9/10, 1), (1/2, 0)]) (ex_request None))) \<and>
   ChunkLookup (- 1) \<notin> set (fst (retrieve ex_env (ex_state [(9/10, 1), (1/2, 0)]) (ex_request None))) \<and>
   length (results (projr (snd
     (retrieve ex_env (ex_state [(9/10, 1), (1/2, 0)]) (ex_request None))))) = 2"
proof -
  have c: "\<not> isl (chunk_at (ex_state [(9/10, 1), (1/2, 0)]) 1) \<and>
           \<not> isl (chunk_at (ex_state [(9/10, 1), (1/2, 0)]) 0)"
    by (simp add: chunk_at_def py_getitem_def ex_state_def)
  have d: "snd (detect_query_language ex_env (query (ex_request None))) = Inr (Some ''en'')"
    by (simp add: detect_query_language_def ex_env_def)
  have r: "ready (ex_state [(9/10, 1), (1/2, 0)])"
    by (simp add: ex_state_def)
  from retrieve_skips_sentinel [of ex_env "ex_state [(9/10, 1), (1/2, 0)]" "ex_request None"]
  show ?thesis
    by (simp add: c d r ex_index_search ex_retrieve_all)
qed

subsection \<open>Round trip\<close>

lemma ex_request_valid: "RetrievalRequest_valid (ex_request None)"
  by (simp add: RetrievalRequest_valid_def ex_request_def)

lemma ex_retrieve_negative:
  "retrieve ex_env (ex_state [(9/10, 1), (- (1/10), 0)]) (ex_request None) =
     ([Detect ''loan'', Encode ''loan'', NormalizeL2, Search 5, ChunkLookup 1, ChunkLookup 0],
      Inr \<lparr>resp_query = ''loan'',
           results = [make_result (ex_chunk 1 ''interest rate'') (9/10),
                      make_result (ex_chunk 0 ''loan eligibility'') (- (1/10))],
           num_results = 2, detected_language = Some ''en'', processing_time_ms = 12\<rparr>)"
  by (simp add: retrieve_def detect_query_language_def index_search_def ex_search_5
        chunk_at_def py_getitem_def ex_state_def ex_env_def ex_request_def)

text \<open>The schema refuses every threshold outside the range from \<open>0\<close> to \<open>1\<close>.\<close>

lemma threshold_out_of_range_rejected:
  "t < 0 \<or> 1 < t \<Longrightarrow>
   post_retrieve env st (request\<lparr>threshold := Some t\<rparr>) = ([], Inl RequestValidationError)"
  by (auto simp: post_retrieve_def RetrievalRequest_valid_def)

text \<open>
  C10, as stated, at a first call whose lowest score is negative: the second request
  carries a threshold below \<open>0\<close>, which the schema of the request refuses, and no result
  list is returned.
\<close>

theorem retrieve_round_trip_counterexample:
  "\<not> isl (snd (post_retrieve ex_env (ex_state [(9/10, 1), (- (1/10), 0)]) (ex_request None))) \<and>
   map score (results (projr (snd
      (post_retrieve ex_env (ex_state [(9/10, 1), (- (1/10), 0)]) (ex_request None))))) =
     [9/10, - (1/10)] \<and>
   Min (score ` set (results (projr (snd
      (post_retrieve ex_env (ex_state [(9/10, 1), (- (1/10), 0)]) (ex_request None)))))) = - (1/10) \<and>
   post_retrieve ex_env (ex_state [(9/10, 1), (- (1/10), 0)]) (ex_request (Some (- (1/10)))) =
     ([], Inl RequestValidationError)"
proof -
  have first: "post_retrieve ex_env (ex_state [(9/10, 1), (- (1/10), 0)]) (ex_request None) =
      retrieve ex_env (ex_state [(9/10, 1), (- (1/10), 0)]) (ex_request None)"
    by (simp add: post_retrieve_def ex_request_valid)
  have second: "post_retrieve ex_env (ex_state [(9/10, 1), (- (1/10), 0)])
                  (ex_request (Some (- (1/10)))) = ([], Inl RequestValidationError)"
    by (simp add: post_retrieve_def RetrievalRequest_valid_def ex_request_def)
  show ?thesis
    unfolding first second
    by (simp add: ex_retrieve_negative score_make_result)
qed


text \<open>
  C10, amended. When the first call, without threshold, returns a list that is not empty
  and whose lowest score lies between \<open>0\<close> and \<open>1\<close>, the same request with that score as
  threshold returns the same calls and the same response, hence the same results. This
  holds for every \<open>k\<close> the schema admits, \<open>k = 5\<close> among them.
\<close>

theorem retrieve_round_trip:
  assumes none: "threshold request = None"
    and post: "post_retrieve env st request = (evs, Inr resp)"
    and nonempty: "results resp \<noteq> []"
    and m: "m = Min (score ` set (results resp))"
    and range: "0 \<le> m" "m \<le> 1"
  shows "post_retrieve env st (request\<lparr>threshold := Some m\<rparr>) = (evs, Inr resp)"
proof -
  from post have valid: "RetrievalRequest_valid request"
    and ret: "retrieve env st request = (evs, Inr resp)"
    by (auto simp: post_retrieve_def split: if_splits)
  from valid range have valid': "RetrievalRequest_valid (request\<lparr>threshold := Some m\<rparr>)"
    by (simp add: RetrievalRequest_valid_def)
  from retrieve_Inr [OF ret] obtain evs1 dl evs2 distances indices where
    rdy: "ready st" and
    det: "detect_query_language env (query request) = (evs1, Inr dl)" and
    srch: "index_search env st request = (evs2, Inr (distances, indices))" and
    br: "build_results st (threshold request) (zip distances indices) (evs1 @ evs2, []) =
           (evs, Inr (results resp))" and
    resp: "resp = \<lparr>resp_query = query request, results = results resp,
                   num_results = length (results resp), detected_language = dl,
                   processing_time_ms = elapsed_ms env\<rparr>"
    by blast
  let ?ps = "zip distances indices"
  let ?mk = "\<lambda>p. make_result (projr (chunk_at st (snd p))) (fst p)"
  from build_results_Inr [OF br] none have
    ok: "\<forall>p\<in>set ?ps. snd p \<noteq> - 1 \<longrightarrow> (\<exists>c. chunk_at st (snd p) = Inr c)" and
    ev: "evs = (evs1 @ evs2) @ map (ChunkLookup \<circ> snd) (filter (\<lambda>p. snd p \<noteq> - 1) ?ps)" and
    r: "results resp = map ?mk (filter (survives None) ?ps)"
    by simp_all
  from build_results_total [OF ok, of "Some m" "evs1 @ evs2" "[]"] obtain evs' r' where
    br': "build_results st (Some m) ?ps (evs1 @ evs2, []) = (evs', Inr r')"
    by blast
  from build_results_Inr [OF br'] have
    ev': "evs' = (evs1 @ evs2) @ map (ChunkLookup \<circ> snd) (filter (\<lambda>p. snd p \<noteq> - 1) ?ps)" and
    r': "r' = map ?mk (filter (survives (Some m)) ?ps)"
    by simp_all
  have low: "m \<le> fst p" if "p \<in> set (filter (survives None) ?ps)" for p
  proof -
    from that r have "?mk p \<in> set (results resp)" by auto
    then have "score (?mk p) \<in> score ` set (results resp)" by (rule imageI)
    then have "m \<le> score (?mk p)" unfolding m by (intro Min_le) simp_all
    then show ?thesis by (simp add: score_make_result)
  qed
  have "filter (\<lambda>p. m \<le> fst p) (filter (survives None) ?ps) = filter (survives None) ?ps"
    by (rule filter_True) (use low in blast)
  with r r' have same: "r' = results resp"
    by (simp add: filter_survives_Some)
  have "retrieve env st (request\<lparr>threshold := Some m\<rparr>) =
          (evs', Inr \<lparr>resp_query = query request, results = r',
                   num_results = length r', detected_language = dl,
                   processing_time_ms = elapsed_ms env\<rparr>)"
    using retrieve_ok [of st env "request\<lparr>threshold := Some m\<rparr>" evs1 dl evs2
                         distances indices evs' r']
      rdy det srch br' by (simp add: index_search_threshold)
  with same ev ev' resp have "retrieve env st (request\<lparr>threshold := Some m\<rparr>) = (evs, Inr resp)"
    by simp
  with valid' show ?thesis by (simp add: post_retrieve_def)
qed

theorem retrieve_round_trip_witness:
  "threshold (ex_request None) = None \<and>
   \<not> isl (snd (post_retrieve ex_env (ex_state [(9/10, 1), (1/2, 0)]) (ex_request None))) \<and>
   results (projr (snd (post_retrieve ex_env (ex_state [(9/10, 1), (1/2, 0)]) (ex_request None)))) \<noteq> [] \<and>
   Min (score ` set (results (projr (snd
      (post_retrieve ex_env (ex_state [(9/10, 1), (1/2, 0)]) (ex_request None)))))) = 1/2 \<and>
   (0::real) \<le> 1/2 \<and> (1/2::real) \<le> 1 \<and>
   post_retrieve ex_env (ex_state [(9/10, 1), (1/2, 0)]) (ex_request (Some (1/2))) =
   post_retrieve ex_env (ex_state [(9/10, 1), (1/2, 0)]) (ex_request None)"
proof -
  let ?resp = "\<lparr>resp_query = ''loan'',
           results = [make_result (ex_chunk 1 ''interest rate'') (9/10),
                      make_result (ex_chunk 0 ''loan eligibility'') (1/2)],
           num_results = 2, detected_language = Some ''en'', processing_time_ms = 12\<rparr>"
  have none: "threshold (ex_request None) = None"
    by (simp add: ex_request_def)
  have post: "post_retrieve ex_env (ex_state [(9/10, 1), (1/2, 0)]) (ex_request None) =
     ([Detect ''loan'', Encode ''loan'', NormalizeL2, Search 5, ChunkLookup 1, ChunkLookup 0],
      Inr ?resp)"
    by (simp add: post_retrieve_def ex_request_valid ex_retrieve_all)
  have ne: "results ?resp \<noteq> []" by simp
  have m: "(1/2::real) = Min (score ` set (results ?resp))"
    by (simp add: score_make_result)
  have upd: "(ex_request None)\<lparr>threshold := Some (1/2)\<rparr> = ex_request (Some (1/2))"
    by (simp add: ex_request_def)
  from retrieve_round_trip [OF none post ne m] show ?thesis
    by (simp add: none post upd score_make_result)
qed



section \<open>Properties of \<^verbatim>\<open>transcribe_audio\<close>\<close>

subsection \<open>The steps of the handler\<close>

lemma save_upload_ok:
  assumes "upload_read audio = Inr content"
  shows "save_upload env audio w =
           (w\<lparr>files := (files w)(temp_name env (upload_suffix env audio) \<mapsto> content),
              events := events w @ [TempCreated (temp_name env (upload_suffix env audio)), UploadRead]\<rparr>,
            Inr (temp_name env (upload_suffix env audio), content))"
  using assms by (simp add: save_upload_def log_event_def Let_def)

lemma save_upload_raises:
  assumes "upload_read audio = Inl e"
  shows "save_upload env audio w =
           (w\<lparr>files := (files w)(temp_name env (upload_suffix env audio) \<mapsto> []),
              events := events w @ [TempCreated (temp_name env (upload_suffix env audio)), UploadRead]\<rparr>,
            Inl e)"
  using assms by (simp add: save_upload_def log_event_def Let_def)

lemma os_unlink_existing:
  "files w p = Some data \<Longrightarrow>
   os_unlink p w = (w\<lparr>files := (files w)(p := None), events := events w @ [Unlinked p]\<rparr>, Inr ())"
  by (simp add: os_unlink_def)

lemma unlink_if_exists_existing:
  "files w p = Some data \<Longrightarrow>
   unlink_if_exists p w =
     (w\<lparr>files := (files w)(p := None), events := events w @ [Unlinked p]\<rparr>, Inr ())"
  by (simp add: unlink_if_exists_def os_path_exists_def os_unlink_existing)

lemma unlink_if_exists_missing:
  "files w p = None \<Longrightarrow> unlink_if_exists p w = (w, Inr ())"
  by (simp add: unlink_if_exists_def os_path_exists_def)

lemma try_indicseamless_raises:
  assumes "files w p = Some data" and "indic_pipeline env pr g data = Inl e"
  shows "try_indicseamless env pr g p w = (w\<lparr>events := events w @ [ModelRun Primary p]\<rparr>, Inl e)"
  using assms
  by (simp add: try_indicseamless_def run_indicseamless_def log_event_def Let_def)

lemma try_indicseamless_returns:
  assumes "files w p = Some data" and "indic_pipeline env pr g data = Inr t"
  shows "try_indicseamless env pr g p w =
           (w\<lparr>files := (files w)(p := None),
              events := events w @ [ModelRun Primary p] @ detect_events env t @ [Unlinked p]\<rparr>,
            Inr (primary_response env t))"
  using assms
  by (simp add: try_indicseamless_def run_indicseamless_def log_event_def Let_def
        detect_transcript_language_def os_unlink_def detect_events_def primary_response_def)

lemma try_whisper_raises:
  assumes "files w p = Some data" and "transcribe data = Inl e"
  shows "try_whisper transcribe p w = (w\<lparr>events := events w @ [ModelRun Fallback p]\<rparr>, Inl e)"
  using assms
  by (simp add: try_whisper_def run_whisper_def log_event_def Let_def)

lemma try_whisper_returns:
  assumes "files w p = Some data" and "transcribe data = Inr result"
  shows "try_whisper transcribe p w =
           (w\<lparr>files := (files w)(p := None),
              events := events w @ [ModelRun Fallback p, Unlinked p]\<rparr>,
            whisper_response result)"
  using assms
  by (simp add: try_whisper_def run_whisper_def log_event_def Let_def os_unlink_def)

lemma fallback_step_loaded:
  assumes "files w p = Some data" and "whisper_model st = Some transcribe"
  shows "fallback_step st p w =
           (w\<lparr>files := (files w)(p := None),
              events := events w @ [ModelRun Fallback p, Unlinked p]\<rparr>,
            fallback_outcome transcribe data)"
proof (cases "transcribe data")
  case (Inl e)
  from try_whisper_raises [of w p data transcribe e] assms Inl
  have "try_whisper transcribe p w = (w\<lparr>events := events w @ [ModelRun Fallback p]\<rparr>, Inl e)"
    by simp
  with assms Inl show ?thesis
    by (simp add: fallback_step_def unlink_if_exists_existing [of _ _ data] fallback_outcome_def)
next
  case (Inr result)
  from try_whisper_returns [of w p data transcribe result] assms Inr
  have "try_whisper transcribe p w =
           (w\<lparr>files := (files w)(p := None),
              events := events w @ [ModelRun Fallback p, Unlinked p]\<rparr>,
            whisper_response result)"
    by simp
  with assms Inr show ?thesis
    by (simp add: fallback_step_def unlink_if_exists_missing fallback_outcome_def
          split: sum.splits)
qed

lemma fallback_step_absent:
  assumes "files w p = Some data" and "whisper_model st = None"
  shows "fallback_step st p w =
           (w\<lparr>files := (files w)(p := None), events := events w @ [Unlinked p]\<rparr>,
            Inl (HTTPException 501 ''No STT model available''))"
  using assms by (simp add: fallback_step_def unlink_if_exists_existing [of _ _ data])


lemma primary_step_absent:
  assumes "primary_attempt env st data = None"
  shows "primary_step env st p w = (w, None)"
  using assms
  by (simp add: primary_step_def primary_attempt_def split: option.splits)

lemma primary_step_raises:
  assumes "files w p = Some data" and "primary_attempt env st data = Some (Inl e)"
  shows "primary_step env st p w = (w\<lparr>events := events w @ [ModelRun Primary p]\<rparr>, None)"
proof -
  from assms(2) obtain g pr where
    g: "indicseamless_model st = Some g" and pr: "indicseamless_processor st = Some pr" and
    run: "indic_pipeline env pr g data = Inl e"
    by (auto simp: primary_attempt_def split: option.splits)
  from try_indicseamless_raises [OF assms(1) run] g pr show ?thesis
    by (simp add: primary_step_def)
qed

lemma primary_step_returns:
  assumes "files w p = Some data" and "primary_attempt env st data = Some (Inr t)"
  shows "primary_step env st p w =
           (w\<lparr>files := (files w)(p := None),
              events := events w @ [ModelRun Primary p] @ detect_events env t @ [Unlinked p]\<rparr>,
            Some (primary_response env t))"
proof -
  from assms(2) obtain g pr where
    g: "indicseamless_model st = Some g" and pr: "indicseamless_processor st = Some pr" and
    run: "indic_pipeline env pr g data = Inr t"
    by (auto simp: primary_attempt_def split: option.splits)
  from try_indicseamless_returns [OF assms(1) run] g pr show ?thesis
    by (simp add: primary_step_def)
qed

text \<open>The chain on a world that holds the audio at the path, case by case.\<close>

lemma stt_chain_primary_answers:
  assumes "files w p = Some data" and "primary_attempt env st data = Some (Inr t)"
  shows "stt_chain env st p w =
           (w\<lparr>files := (files w)(p := None),
              events := events w @ [ModelRun Primary p] @ detect_events env t @ [Unlinked p]\<rparr>,
            Inr (primary_response env t))"
  using primary_step_returns [OF assms] by (simp add: stt_chain_def)

lemma stt_chain_primary_raises:
  assumes "files w p = Some data" and "primary_attempt env st data = Some (Inl e)"
    and "whisper_model st = Some transcribe"
  shows "stt_chain env st p w =
           (w\<lparr>files := (files w)(p := None),
              events := events w @ [ModelRun Primary p, ModelRun Fallback p, Unlinked p]\<rparr>,
            fallback_outcome transcribe data)"
proof -
  let ?w1 = "w\<lparr>events := events w @ [ModelRun Primary p]\<rparr>"
  have f: "files ?w1 p = Some data" using assms(1) by simp
  from primary_step_raises [OF assms(1,2)] fallback_step_loaded [OF f assms(3)]
  show ?thesis by (simp add: stt_chain_def)
qed

lemma stt_chain_primary_raises_alone:
  assumes "files w p = Some data" and "primary_attempt env st data = Some (Inl e)"
    and "whisper_model st = None"
  shows "stt_chain env st p w =
           (w\<lparr>files := (files w)(p := None),
              events := events w @ [ModelRun Primary p, Unlinked p]\<rparr>,
            Inl (HTTPException 501 ''No STT model available''))"
proof -
  let ?w1 = "w\<lparr>events := events w @ [ModelRun Primary p]\<rparr>"
  have f: "files ?w1 p = Some data" using assms(1) by simp
  from primary_step_raises [OF assms(1,2)] fallback_step_absent [OF f assms(3)]
  show ?thesis by (simp add: stt_chain_def)
qed

lemma stt_chain_fallback_only:
  assumes "files w p = Some data" and "primary_attempt env st data = None"
    and "whisper_model st = Some transcribe"
  shows "stt_chain env st p w =
           (w\<lparr>files := (files w)(p := None),
              events := events w @ [ModelRun Fallback p, Unlinked p]\<rparr>,
            fallback_outcome transcribe data)"
  using primary_step_absent [OF assms(2)] fallback_step_loaded [OF assms(1,3)]
  by (simp add: stt_chain_def)

lemma stt_chain_no_model:
  assumes "files w p = Some data" and "primary_attempt env st data = None"
    and "whisper_model st = None"
  shows "stt_chain env st p w =
           (w\<lparr>files := (files w)(p := None), events := events w @ [Unlinked p]\<rparr>,
            Inl (HTTPException 501 ''No STT model available''))"
  using primary_step_absent [OF assms(2)] fallback_step_absent [OF assms(1,3)]
  by (simp add: stt_chain_def)

lemma fallback_outcome_not_Exception: "fallback_outcome transcribe data \<noteq> Inl (Exception e)"
  by (simp add: fallback_outcome_def split: sum.splits)

text \<open>
  In every case the chain removes the file, once, and raises nothing but an
  \<^verbatim>\<open>HTTPException\<close>.
\<close>

lemma stt_chain_cleanup:
  assumes f: "files w p = Some data" and run: "stt_chain env st p w = (w', r)"
  shows "files w' = (files w)(p := None) \<and>
         (\<exists>evs. events w' = events w @ evs \<and> file_events evs = [Unlinked p]) \<and>
         (\<forall>e. r \<noteq> Inl (Exception e))"
proof (cases "primary_attempt env st data")
  case None
  show ?thesis
  proof (cases "whisper_model st")
    case N: None
    from stt_chain_no_model [OF f None N] run show ?thesis
      by (auto simp: file_events_def)
  next
    case (Some transcribe)
    from stt_chain_fallback_only [OF f None Some] run show ?thesis
      by (auto simp: file_events_def fallback_outcome_not_Exception)
  qed
next
  case (Some a)
  show ?thesis
  proof (cases a)
    case (Inr t)
    with Some have "primary_attempt env st data = Some (Inr t)" by simp
    from stt_chain_primary_answers [OF f this] run show ?thesis
      by (auto simp: file_events_def detect_events_def)
  next
    case (Inl e)
    with Some have pa: "primary_attempt env st data = Some (Inl e)" by simp
    show ?thesis
    proof (cases "whisper_model st")
      case None
      from stt_chain_primary_raises_alone [OF f pa None] run show ?thesis
        by (auto simp: file_events_def)
    next
      case (Some transcribe)
      from stt_chain_primary_raises [OF f pa Some] run show ?thesis
        by (auto simp: file_events_def fallback_outcome_not_Exception)
    qed
  qed
qed

text \<open>Past the guard, with the upload read, the handler is the chain on the saved file.\<close>

lemma transcribe_audio_saved:
  assumes guard: "WHISPER_AVAILABLE env \<or> indicseamless_model st \<noteq> None"
    and rd: "upload_read audio = Inr content"
  shows "transcribe_audio env st audio w =
           stt_chain env st (temp_name env (upload_suffix env audio))
             (w\<lparr>files := (files w)(temp_name env (upload_suffix env audio) \<mapsto> content),
                events := events w @ [TempCreated (temp_name env (upload_suffix env audio)),
                                      UploadRead]\<rparr>)"
proof -
  let ?p = "temp_name env (upload_suffix env audio)"
  let ?w1 = "w\<lparr>files := (files w)(?p \<mapsto> content),
                events := events w @ [TempCreated ?p, UploadRead]\<rparr>"
  obtain w2 r where run: "stt_chain env st ?p ?w1 = (w2, r)"
    by (cases "stt_chain env st ?p ?w1")
  have f: "files ?w1 ?p = Some content" by simp
  from stt_chain_cleanup [OF f run] have nex: "\<forall>e. r \<noteq> Inl (Exception e)" by simp
  show ?thesis
  proof (cases r)
    case (Inr response)
    with guard run show ?thesis
      by (auto simp: transcribe_audio_def save_upload_ok [OF rd])
  next
    case (Inl x)
    with nex guard run show ?thesis
      by (cases x) (auto simp: transcribe_audio_def save_upload_ok [OF rd])
  qed
qed


lemma transcribe_audio_unavailable:
  assumes "\<not> WHISPER_AVAILABLE env" and "indicseamless_model st = None"
  shows "transcribe_audio env st audio w =
           (w, Inl (HTTPException 501
                     ''No STT model available. Install Whisper or IndicSeamless.''))"
  using assms by (simp add: transcribe_audio_def)

text \<open>
  A read of the upload that raises, past the guard: the file was created, its path was
  never bound, and the handler of line 582 leaves the file where it is.
\<close>

lemma transcribe_audio_read_raises:
  assumes "WHISPER_AVAILABLE env \<or> indicseamless_model st \<noteq> None"
    and "upload_read audio = Inl e"
  shows "transcribe_audio env st audio w =
           (w\<lparr>files := (files w)(temp_name env (upload_suffix env audio) \<mapsto> []),
              events := events w @ [TempCreated (temp_name env (upload_suffix env audio)),
                                    UploadRead]\<rparr>,
            Inl (HTTPException 500 (''Transcription failed: '' @ e)))"
  using assms by (auto simp: transcribe_audio_def save_upload_raises)

lemma new_events_append: "events w' = events w @ evs \<Longrightarrow> new_events w w' = evs"
  by (simp add: new_events_def)


subsection \<open>Concrete runs\<close>

lemma ex_temp_path:
  "temp_name ex_stt_env (upload_suffix ex_stt_env ex_audio) = ''/tmp/tmpa1.wav''"
  by (simp add: ex_stt_env_def ex_env_def upload_suffix_def ex_audio_def)

lemma ex_guards:
  "WHISPER_AVAILABLE ex_stt_env"
  "\<not> WHISPER_AVAILABLE ex_env"
  "indicseamless_model ex_initial_state = None"
  "whisper_model ex_initial_state = None"
  "indicseamless_model (ex_stt_state pm fb) = pm"
  by (simp_all add: ex_stt_env_def ex_env_def ex_initial_state_def ex_stt_state_def)

lemma ex_upload_read: "upload_read ex_audio = Inr [82, 73, 70, 70]"
  by (simp add: ex_audio_def)

lemma ex_primary_attempt_returns:
  "primary_attempt ex_stt_env (ex_stt_state (Some (ex_generate True)) fb) [82, 73, 70, 70] =
     Some (Inr '' namaste '')"
  by (simp add: primary_attempt_def ex_stt_state_def ex_initial_state_def indic_pipeline_def
        ex_stt_env_def ex_env_def ex_processor_def ex_generate_def py_getitem_def)

lemma ex_primary_attempt_raises:
  "primary_attempt ex_stt_env (ex_stt_state (Some (ex_generate False)) fb) [82, 73, 70, 70] =
     Some (Inl ''CUDA out of memory'')"
  by (simp add: primary_attempt_def ex_stt_state_def ex_initial_state_def indic_pipeline_def
        ex_stt_env_def ex_env_def ex_processor_def ex_generate_def)

lemma ex_primary_attempt_absent:
  "primary_attempt env (ex_stt_state None fb) data = None"
  by (simp add: primary_attempt_def ex_stt_state_def ex_initial_state_def)

lemma ex_whisper_model: "whisper_model (ex_stt_state pm fb) = fb"
  by (simp add: ex_stt_state_def ex_initial_state_def)

lemma py_strip_examples:
  "py_strip '' namaste '' = ''namaste''"
  "py_strip '' hello world'' = ''hello world''"
  "py_strip '' hello'' = ''hello''"
  "py_strip '' world'' = ''world''"
  by (simp_all add: py_strip_def py_isspace_def)

lemma ex_primary_response:
  "primary_response ex_stt_env '' namaste '' =
     \<lparr>resp_text = ''namaste'', language = ''en'', confidence = Some (17/20), segments = []\<rparr>"
  by (simp add: primary_response_def py_strip_examples ex_stt_env_def ex_env_def)

lemma ex_whisper_response:
  "whisper_response ex_whisper_result =
     Inr \<lparr>resp_text = ''hello world'', language = ''en'', confidence = Some (7/10),
          segments = [\<lparr>seg_start = 0, seg_end = 1, seg_text = ''hello''\<rparr>,
                      \<lparr>seg_start = 1, seg_end = 2, seg_text = ''world''\<rparr>]\<rparr>"
  by (simp add: whisper_response_def ex_whisper_result_def py_strip_examples Let_def)

lemma ex_fallback_outcome_returns:
  "fallback_outcome (ex_whisper True) data =
     Inr \<lparr>resp_text = ''hello world'', language = ''en'', confidence = Some (7/10),
          segments = [\<lparr>seg_start = 0, seg_end = 1, seg_text = ''hello''\<rparr>,
                      \<lparr>seg_start = 1, seg_end = 2, seg_text = ''world''\<rparr>]\<rparr>"
  by (simp add: fallback_outcome_def ex_whisper_def ex_whisper_response)

lemma ex_fallback_outcome_raises:
  "fallback_outcome (ex_whisper False) data =
     Inl (HTTPException 500 ''Whisper transcription failed: Invalid data'')"
  by (simp add: fallback_outcome_def ex_whisper_def)


subsection \<open>The temporary file\<close>

text \<open>
  What a call does to the temporary file. It creates the file at most once and deletes it
  at most once, creation first. A call that leaves by the guard of line 441 creates and
  deletes nothing. A call that passes the guard and reads the upload creates the file once
  and deletes it once before it returns, whichever way it returns (primary success,
  fallback success, fallback failure, no model loaded), and the file does not exist
  afterwards.
\<close>

lemma temp_file_lifecycle:
  assumes run: "transcribe_audio env st audio w = (w', r)"
  shows "let p = temp_name env (upload_suffix env audio) in
         prefix (file_events (new_events w w')) [TempCreated p, Unlinked p] \<and>
         (\<not> WHISPER_AVAILABLE env \<and> indicseamless_model st = None \<longrightarrow> w' = w) \<and>
         ((WHISPER_AVAILABLE env \<or> indicseamless_model st \<noteq> None) \<and> \<not> isl (upload_read audio) \<longrightarrow>
            file_events (new_events w w') = [TempCreated p, Unlinked p] \<and>
            files w' = (files w)(p := None))"
proof (cases "\<not> WHISPER_AVAILABLE env \<and> indicseamless_model st = None")
  case True
  with transcribe_audio_unavailable [of env st audio w] run have "w' = w" by auto
  with True show ?thesis by (simp add: new_events_def file_events_def)
next
  case False
  then have guard: "WHISPER_AVAILABLE env \<or> indicseamless_model st \<noteq> None" by auto
  let ?p = "temp_name env (upload_suffix env audio)"
  show ?thesis
  proof (cases "upload_read audio")
    case (Inl e)
    from transcribe_audio_read_raises [OF guard Inl, of w] run
    have "events w' = events w @ [TempCreated ?p, UploadRead]" by auto
    from new_events_append [OF this] Inl guard show ?thesis
      by (auto simp: file_events_def)
  next
    case (Inr content)
    let ?w1 = "w\<lparr>files := (files w)(?p \<mapsto> content),
                  events := events w @ [TempCreated ?p, UploadRead]\<rparr>"
    from transcribe_audio_saved [OF guard Inr, of w] run
    have chain: "stt_chain env st ?p ?w1 = (w', r)" by simp
    have f: "files ?w1 ?p = Some content" by simp
    from stt_chain_cleanup [OF f chain] obtain evs where
      fs: "files w' = (files ?w1)(?p := None)" and
      ev: "events w' = events ?w1 @ evs" and fe: "file_events evs = [Unlinked ?p]"
      by blast
    from ev have "events w' = events w @ ([TempCreated ?p, UploadRead] @ evs)" by simp
    from new_events_append [OF this] fe
    have "file_events (new_events w w') = [TempCreated ?p, Unlinked ?p]"
      by (simp add: file_events_def)
    moreover from fs have "files w' = (files w)(?p := None)" by simp
    ultimately show ?thesis using guard by auto
  qed
qed

lemma temp_file_lifecycle_example:
  "(WHISPER_AVAILABLE ex_stt_env \<or>
      indicseamless_model (ex_stt_state (Some (ex_generate False)) (Some (ex_whisper True))) \<noteq> None) \<and>
   \<not> isl (upload_read ex_audio) \<and>
   file_events (new_events ex_world (fst (transcribe_audio ex_stt_env
       (ex_stt_state (Some (ex_generate False)) (Some (ex_whisper True))) ex_audio ex_world))) =
     [TempCreated ''/tmp/tmpa1.wav'', Unlinked ''/tmp/tmpa1.wav''] \<and>
   files (fst (transcribe_audio ex_stt_env
       (ex_stt_state (Some (ex_generate False)) (Some (ex_whisper True))) ex_audio ex_world))
     ''/tmp/tmpa1.wav'' = None \<and>
   \<not> WHISPER_AVAILABLE ex_env \<and> indicseamless_model ex_initial_state = None \<and>
   fst (transcribe_audio ex_env ex_initial_state ex_audio ex_world) = ex_world"
  using
    temp_file_lifecycle [of ex_stt_env
      "ex_stt_state (Some (ex_generate False)) (Some (ex_whisper True))" ex_audio ex_world
      "fst (transcribe_audio ex_stt_env
         (ex_stt_state (Some (ex_generate False)) (Some (ex_whisper True))) ex_audio ex_world)"
      "snd (transcribe_audio ex_stt_env
         (ex_stt_state (Some (ex_generate False)) (Some (ex_whisper True))) ex_audio ex_world)"]
    temp_file_lifecycle [of ex_env ex_initial_state ex_audio ex_world
      "fst (transcribe_audio ex_env ex_initial_state ex_audio ex_world)"
      "snd (transcribe_audio ex_env ex_initial_state ex_audio ex_world)"]
  by (simp add: Let_def ex_temp_path ex_upload_read ex_guards)

text \<open>
  The file is created and left behind exactly when the call passes the guard and the read
  of the upload raises.
\<close>

lemma temp_file_left_behind_iff:
  assumes run: "transcribe_audio env st audio w = (w', r)"
  shows "file_events (new_events w w') = [TempCreated (temp_name env (upload_suffix env audio))] \<longleftrightarrow>
         (WHISPER_AVAILABLE env \<or> indicseamless_model st \<noteq> None) \<and> isl (upload_read audio)"
proof (cases "\<not> WHISPER_AVAILABLE env \<and> indicseamless_model st = None")
  case True
  with transcribe_audio_unavailable [of env st audio w] run have "w' = w" by auto
  with True show ?thesis by (simp add: new_events_def file_events_def)
next
  case False
  then have guard: "WHISPER_AVAILABLE env \<or> indicseamless_model st \<noteq> None" by auto
  show ?thesis
  proof (cases "upload_read audio")
    case (Inl e)
    from transcribe_audio_read_raises [OF guard Inl, of w] run
    have "events w' =
            events w @ [TempCreated (temp_name env (upload_suffix env audio)), UploadRead]"
      by auto
    from new_events_append [OF this] Inl guard show ?thesis
      by (simp add: file_events_def)
  next
    case (Inr content)
    with temp_file_lifecycle [OF run] guard show ?thesis
      by (auto simp: Let_def)
  qed
qed

text \<open>
  C1. The claim asks that the temporary file be created at most once and deleted exactly
  once before the call returns, on every exit, an exception raised while reading the
  upload among them. The handler misses that exit. Here the fallback model is loaded and
  the read of the upload raises: the call answers 500, it has created the file and
  deleted nothing, and the file still exists when it returns. The handler of line 582
  means to remove the file, but \<^verbatim>\<open>temp_path\<close> is bound only after the read (line
  459), so its test \<^verbatim>\<open>'temp_path' in locals()\<close> fails and the unlink is skipped.
\<close>

theorem transcribe_audio_leaks_temp_file:
  "upload_read ex_audio_unreadable = Inl ''read of closed file'' \<and>
   snd (transcribe_audio ex_stt_env (ex_stt_state None (Some (ex_whisper True)))
          ex_audio_unreadable ex_world) =
     Inl (HTTPException 500 ''Transcription failed: read of closed file'') \<and>
   file_events (new_events ex_world
     (fst (transcribe_audio ex_stt_env (ex_stt_state None (Some (ex_whisper True)))
             ex_audio_unreadable ex_world))) = [TempCreated ''/tmp/tmpa1.wav''] \<and>
   files ex_world ''/tmp/tmpa1.wav'' = None \<and>
   files (fst (transcribe_audio ex_stt_env (ex_stt_state None (Some (ex_whisper True)))
             ex_audio_unreadable ex_world)) ''/tmp/tmpa1.wav'' = Some []"
proof -
  have g: "WHISPER_AVAILABLE ex_stt_env \<or>
           indicseamless_model (ex_stt_state None (Some (ex_whisper True))) \<noteq> None"
    by (simp add: ex_guards)
  have rd: "upload_read ex_audio_unreadable = Inl ''read of closed file''"
    by (simp add: ex_audio_unreadable_def)
  have p: "temp_name ex_stt_env (upload_suffix ex_stt_env ex_audio_unreadable) =
             ''/tmp/tmpa1.wav''"
    by (simp add: ex_stt_env_def ex_env_def upload_suffix_def ex_audio_unreadable_def)
  show ?thesis
    unfolding transcribe_audio_read_raises [OF g rd] p
    by (simp add: rd new_events_def file_events_def ex_world_def)
qed


subsection \<open>The readiness flag\<close>

text \<open>
  C2, as stated, on the state that \<^verbatim>\<open>ServerState.__init__\<close> builds, whose flag is
  false: \<^verbatim>\<open>transcribe_audio\<close> answers 501, with or without Whisper installed, and
  not 503.
\<close>

theorem readiness_gate_counterexample:
  "\<not> ready ex_initial_state \<and>
   snd (transcribe_audio ex_env ex_initial_state ex_audio ex_world) =
     Inl (HTTPException 501 ''No STT model available. Install Whisper or IndicSeamless.'') \<and>
   snd (transcribe_audio ex_stt_env ex_initial_state ex_audio ex_world) =
     Inl (HTTPException 501 ''No STT model available'')"
proof -
  have g: "WHISPER_AVAILABLE ex_stt_env \<or> indicseamless_model ex_initial_state \<noteq> None"
    by (simp add: ex_stt_env_def)
  have pa: "primary_attempt ex_stt_env ex_initial_state [82, 73, 70, 70] = None"
    by (simp add: primary_attempt_def ex_initial_state_def)
  have wm: "whisper_model ex_initial_state = None"
    by (simp add: ex_initial_state_def)
  have "snd (transcribe_audio ex_stt_env ex_initial_state ex_audio ex_world) =
          Inl (HTTPException 501 ''No STT model available'')"
    by (simp add: transcribe_audio_saved [OF g ex_upload_read]
          stt_chain_no_model [OF _ pa wm])
  moreover have "snd (transcribe_audio ex_env ex_initial_state ex_audio ex_world) =
     Inl (HTTPException 501 ''No STT model available. Install Whisper or IndicSeamless.'')"
    by (simp add: transcribe_audio_def ex_env_def ex_initial_state_def)
  ultimately show ?thesis by (simp add: ex_initial_state_def)
qed


text \<open>
  C2, amended. When the readiness flag is false, \<^verbatim>\<open>retrieve\<close> fails at once with
  503 "Service not ready" and has called none of its collaborators;
  \<^verbatim>\<open>transcribe_audio\<close> does not read the flag: it does and answers what it does
  when the flag is true.
\<close>

theorem readiness_gate:
  assumes "\<not> ready st"
  shows "retrieve env st request = ([], Inl (HTTPException 503 ''Service not ready'')) \<and>
         transcribe_audio env st audio w = transcribe_audio env (st\<lparr>ready := True\<rparr>) audio w"
proof -
  have primary: "primary_step env (st\<lparr>ready := True\<rparr>) p v = primary_step env st p v" for p v
    by (simp add: primary_step_def split: option.splits)
  have fallback: "fallback_step (st\<lparr>ready := True\<rparr>) p v = fallback_step st p v" for p v
    by (simp add: fallback_step_def split: option.splits)
  have chain: "stt_chain env (st\<lparr>ready := True\<rparr>) p v = stt_chain env st p v" for p v
    by (simp add: stt_chain_def primary fallback split: prod.splits option.splits)
  from assms show ?thesis
    by (simp add: retrieve_def transcribe_audio_def chain)
qed

theorem readiness_gate_witness:
  "\<not> ready ex_initial_state \<and>
   retrieve ex_env ex_initial_state (ex_request None) =
     ([], Inl (HTTPException 503 ''Service not ready'')) \<and>
   transcribe_audio ex_env ex_initial_state ex_audio ex_world =
     transcribe_audio ex_env (ex_initial_state\<lparr>ready := True\<rparr>) ex_audio ex_world"
proof -
  have h: "\<not> ready ex_initial_state" by (simp add: ex_initial_state_def)
  from readiness_gate [OF h] h show ?thesis by simp
qed


subsection \<open>Primary model, then fallback\<close>

text \<open>
  C3. With the upload saved: when the primary model raises and the fallback model is
  loaded, the primary ran once, the fallback ran once after it on the same path, which
  holds the bytes of the upload, and the answer is what the fallback makes of those bytes,
  in which the error of the primary does not appear; when the primary model returns, it
  is the only model that ran and the answer is its own.
\<close>

theorem fallback_after_primary_failure:
  assumes rd: "upload_read audio = Inr content"
    and run: "transcribe_audio env st audio w = (w', r)"
  shows "let p = temp_name env (upload_suffix env audio) in
         (\<forall>e transcribe.
             primary_attempt env st content = Some (Inl e) \<and> whisper_model st = Some transcribe \<longrightarrow>
             model_runs (new_events w w') = [ModelRun Primary p, ModelRun Fallback p] \<and>
             r = fallback_outcome transcribe content) \<and>
         (\<forall>t. primary_attempt env st content = Some (Inr t) \<longrightarrow>
             model_runs (new_events w w') = [ModelRun Primary p] \<and>
             r = Inr (primary_response env t))"
proof -
  let ?p = "temp_name env (upload_suffix env audio)"
  let ?w1 = "w\<lparr>files := (files w)(?p \<mapsto> content),
                events := events w @ [TempCreated ?p, UploadRead]\<rparr>"
  have f: "files ?w1 ?p = Some content" by simp
  have chain: "stt_chain env st ?p ?w1 = (w', r)"
    if "primary_attempt env st content = Some a" for a
  proof -
    from that have "indicseamless_model st \<noteq> None"
      by (auto simp: primary_attempt_def split: option.splits)
    then have "WHISPER_AVAILABLE env \<or> indicseamless_model st \<noteq> None" by simp
    from transcribe_audio_saved [OF this rd, of w] run show ?thesis by simp
  qed
  have a: "model_runs (new_events w w') = [ModelRun Primary ?p, ModelRun Fallback ?p] \<and>
           r = fallback_outcome transcribe content"
    if pa: "primary_attempt env st content = Some (Inl e)"
      and wm: "whisper_model st = Some transcribe" for e transcribe
  proof -
    from stt_chain_primary_raises [OF f pa wm] chain [OF pa]
    have r: "r = fallback_outcome transcribe content"
      and "events w' = events w @
             [TempCreated ?p, UploadRead, ModelRun Primary ?p, ModelRun Fallback ?p, Unlinked ?p]"
      by auto
    from new_events_append [OF this(2)] r show ?thesis
      by (simp add: model_runs_def)
  qed
  have b: "model_runs (new_events w w') = [ModelRun Primary ?p] \<and>
           r = Inr (primary_response env t)"
    if pa: "primary_attempt env st content = Some (Inr t)" for t
  proof -
    from stt_chain_primary_answers [OF f pa] chain [OF pa]
    have r: "r = Inr (primary_response env t)"
      and "events w' = events w @
             ([TempCreated ?p, UploadRead, ModelRun Primary ?p] @ detect_events env t @ [Unlinked ?p])"
      by auto
    from new_events_append [OF this(2)] r show ?thesis
      by (simp add: model_runs_def detect_events_def)
  qed
  from a b show ?thesis by (auto simp: Let_def)
qed


theorem fallback_after_primary_failure_witness:
  "upload_read ex_audio = Inr [82, 73, 70, 70] \<and>
   primary_attempt ex_stt_env (ex_stt_state (Some (ex_generate False)) (Some (ex_whisper True)))
     [82, 73, 70, 70] = Some (Inl ''CUDA out of memory'') \<and>
   whisper_model (ex_stt_state (Some (ex_generate False)) (Some (ex_whisper True))) =
     Some (ex_whisper True) \<and>
   model_runs (new_events ex_world (fst (transcribe_audio ex_stt_env
       (ex_stt_state (Some (ex_generate False)) (Some (ex_whisper True))) ex_audio ex_world))) =
     [ModelRun Primary ''/tmp/tmpa1.wav'', ModelRun Fallback ''/tmp/tmpa1.wav''] \<and>
   snd (transcribe_audio ex_stt_env
       (ex_stt_state (Some (ex_generate False)) (Some (ex_whisper True))) ex_audio ex_world) =
     Inr \<lparr>resp_text = ''hello world'', language = ''en'', confidence = Some (7/10),
          segments = [\<lparr>seg_start = 0, seg_end = 1, seg_text = ''hello''\<rparr>,
                      \<lparr>seg_start = 1, seg_end = 2, seg_text = ''world''\<rparr>]\<rparr> \<and>
   primary_attempt ex_stt_env (ex_stt_state (Some (ex_generate True)) (Some (ex_whisper True)))
     [82, 73, 70, 70] = Some (Inr '' namaste '') \<and>
   model_runs (new_events ex_world (fst (transcribe_audio ex_stt_env
       (ex_stt_state (Some (ex_generate True)) (Some (ex_whisper True))) ex_audio ex_world))) =
     [ModelRun Primary ''/tmp/tmpa1.wav''] \<and>
   snd (transcribe_audio ex_stt_env
       (ex_stt_state (Some (ex_generate True)) (Some (ex_whisper True))) ex_audio ex_world) =
     Inr \<lparr>resp_text = ''namaste'', language = ''en'', confidence = Some (17/20), segments = []\<rparr>"
  using
    fallback_after_primary_failure [OF ex_upload_read, of ex_stt_env
      "ex_stt_state (Some (ex_generate False)) (Some (ex_whisper True))" ex_world
      "fst (transcribe_audio ex_stt_env
         (ex_stt_state (Some (ex_generate False)) (Some (ex_whisper True))) ex_audio ex_world)"
      "snd (transcribe_audio ex_stt_env
         (ex_stt_state (Some (ex_generate False)) (Some (ex_whisper True))) ex_audio ex_world)"]
    fallback_after_primary_failure [OF ex_upload_read, of ex_stt_env
      "ex_stt_state (Some (ex_generate True)) (Some (ex_whisper True))" ex_world
      "fst (transcribe_audio ex_stt_env
         (ex_stt_state (Some (ex_generate True)) (Some (ex_whisper True))) ex_audio ex_world)"
      "snd (transcribe_audio ex_stt_env
         (ex_stt_state (Some (ex_generate True)) (Some (ex_whisper True))) ex_audio ex_world)"]
  by (simp add: Let_def ex_temp_path ex_upload_read ex_primary_attempt_raises
        ex_primary_attempt_returns ex_whisper_model ex_fallback_outcome_returns
        ex_primary_response)


subsection \<open>One model fails, no other is loaded\<close>

lemma ex_models_failing:
  "snd (transcribe_audio ex_stt_env (ex_stt_state (Some (ex_generate False)) None)
          ex_audio ex_world) = Inl (HTTPException 501 ''No STT model available'')"
proof -
  have g: "WHISPER_AVAILABLE ex_stt_env \<or>
           indicseamless_model (ex_stt_state (Some (ex_generate False)) None) \<noteq> None"
    by (simp add: ex_guards)
  show ?thesis
    by (simp add: transcribe_audio_saved [OF g ex_upload_read]
          stt_chain_primary_raises_alone [OF _ ex_primary_attempt_raises ex_whisper_model])
qed

text \<open>
  C7, as stated, when the primary model is loaded and raises and no fallback model is
  loaded: the answer is 501 "No STT model available", not 500, and the message of the
  error is not in it.
\<close>

theorem single_model_failure_counterexample:
  "primary_attempt ex_stt_env (ex_stt_state (Some (ex_generate False)) None) [82, 73, 70, 70] =
     Some (Inl ''CUDA out of memory'') \<and>
   whisper_model (ex_stt_state (Some (ex_generate False)) None) = None \<and>
   snd (transcribe_audio ex_stt_env (ex_stt_state (Some (ex_generate False)) None)
          ex_audio ex_world) = Inl (HTTPException 501 ''No STT model available'')"
  by (simp add: ex_primary_attempt_raises ex_whisper_model ex_models_failing)

text \<open>
  C7, amended. With the upload saved: when the primary model raises and no fallback
  model is loaded, the answer is 501 "No STT model available"; when the primary model is
  not loaded and the fallback model raises, the answer is 500 and carries the message of
  the error after "Whisper transcription failed: ".
\<close>

theorem single_model_failure:
  assumes rd: "upload_read audio = Inr content"
  shows "(\<forall>e. primary_attempt env st content = Some (Inl e) \<and> whisper_model st = None \<longrightarrow>
            snd (transcribe_audio env st audio w) =
              Inl (HTTPException 501 ''No STT model available'')) \<and>
         (\<forall>transcribe e.
            (WHISPER_AVAILABLE env \<or> indicseamless_model st \<noteq> None) \<and>
            primary_attempt env st content = None \<and>
            whisper_model st = Some transcribe \<and> transcribe content = Inl e \<longrightarrow>
            snd (transcribe_audio env st audio w) =
              Inl (HTTPException 500 (''Whisper transcription failed: '' @ e)))"
proof (intro conjI allI impI)
  fix e
  assume h: "primary_attempt env st content = Some (Inl e) \<and> whisper_model st = None"
  then have "indicseamless_model st \<noteq> None"
    by (auto simp: primary_attempt_def split: option.splits)
  then have g: "WHISPER_AVAILABLE env \<or> indicseamless_model st \<noteq> None" by simp
  from h have pa: "primary_attempt env st content = Some (Inl e)"
    and wm: "whisper_model st = None" by simp_all
  show "snd (transcribe_audio env st audio w) =
          Inl (HTTPException 501 ''No STT model available'')"
    by (simp add: transcribe_audio_saved [OF g rd]
          stt_chain_primary_raises_alone [OF _ pa wm])
next
  fix transcribe e
  assume h: "(WHISPER_AVAILABLE env \<or> indicseamless_model st \<noteq> None) \<and>
            primary_attempt env st content = None \<and>
            whisper_model st = Some transcribe \<and> transcribe content = Inl e"
  then have g: "WHISPER_AVAILABLE env \<or> indicseamless_model st \<noteq> None"
    and pa: "primary_attempt env st content = None"
    and wm: "whisper_model st = Some transcribe"
    and raises: "transcribe content = Inl e" by simp_all
  show "snd (transcribe_audio env st audio w) =
          Inl (HTTPException 500 (''Whisper transcription failed: '' @ e))"
    by (simp add: transcribe_audio_saved [OF g rd]
          stt_chain_fallback_only [OF _ pa wm] fallback_outcome_def raises)
qed

theorem single_model_failure_witness:
  "upload_read ex_audio = Inr [82, 73, 70, 70] \<and>
   primary_attempt ex_stt_env (ex_stt_state (Some (ex_generate False)) None) [82, 73, 70, 70] =
     Some (Inl ''CUDA out of memory'') \<and>
   whisper_model (ex_stt_state (Some (ex_generate False)) None) = None \<and>
   snd (transcribe_audio ex_stt_env (ex_stt_state (Some (ex_generate False)) None)
          ex_audio ex_world) = Inl (HTTPException 501 ''No STT model available'') \<and>
   WHISPER_AVAILABLE ex_stt_env \<and>
   primary_attempt ex_stt_env (ex_stt_state None (Some (ex_whisper False))) [82, 73, 70, 70] = None \<and>
   whisper_model (ex_stt_state None (Some (ex_whisper False))) = Some (ex_whisper False) \<and>
   ex_whisper False [82, 73, 70, 70] = Inl ''Invalid data'' \<and>
   snd (transcribe_audio ex_stt_env (ex_stt_state None (Some (ex_whisper False)))
          ex_audio ex_world) =
     Inl (HTTPException 500 ''Whisper transcription failed: Invalid data'')"
  using
    single_model_failure [OF ex_upload_read, of ex_stt_env
      "ex_stt_state (Some (ex_generate False)) None" ex_world]
    single_model_failure [OF ex_upload_read, of ex_stt_env
      "ex_stt_state None (Some (ex_whisper False))" ex_world]
  by (simp add: ex_upload_read ex_primary_attempt_raises ex_primary_attempt_absent
        ex_whisper_model ex_guards ex_whisper_def)


subsection \<open>No model is loaded\<close>






subsection \<open>Confidence and segments\<close>

lemma out_segments_Inr:
  "out_segments segs = Inr out \<Longrightarrow>
     map (Some \<circ> seg_start) out = map ws_start segs \<and>
     map (Some \<circ> seg_end) out = map ws_end segs \<and>
     map (Some \<circ> seg_text) out = map (map_option py_strip \<circ> ws_text) segs"
proof (induction segs arbitrary: out)
  case Nil
  then show ?case by simp
next
  case (Cons seg segs)
  from Cons.prems obtain s e t rest where
    "ws_start seg = Some s" "ws_end seg = Some e" "ws_text seg = Some t"
    "out_segments segs = Inr rest"
    "out = \<lparr>seg_start = s, seg_end = e, seg_text = py_strip t\<rparr> # rest"
    by (auto split: option.splits sum.splits)
  with Cons.IH [of rest] show ?case by simp
qed

lemma whisper_response_Inr:
  assumes "whisper_response result = Inr response"
  shows "confidence response =
           Some (if (case w_segments result of None \<Rightarrow> [] | Some l \<Rightarrow> l) = [] then 8/10
                 else 1 - mean_no_speech_prob (case w_segments result of None \<Rightarrow> [] | Some l \<Rightarrow> l)) \<and>
         out_segments (case w_segments result of None \<Rightarrow> [] | Some l \<Rightarrow> l) =
           Inr (segments response) \<and>
         map_option py_strip (w_text result) = Some (resp_text response)"
  using assms
  by (cases "w_text result"; cases "out_segments (case w_segments result of None \<Rightarrow> [] | Some l \<Rightarrow> l)")
     (auto simp: whisper_response_def Let_def mean_no_speech_prob_def)

lemma ex_run_primary:
  "snd (transcribe_audio ex_stt_env (ex_stt_state (Some (ex_generate True)) (Some (ex_whisper True)))
          ex_audio ex_world) =
     Inr \<lparr>resp_text = ''namaste'', language = ''en'', confidence = Some (17/20), segments = []\<rparr>"
proof -
  have g: "WHISPER_AVAILABLE ex_stt_env \<or>
           indicseamless_model (ex_stt_state (Some (ex_generate True)) (Some (ex_whisper True))) \<noteq> None"
    by (simp add: ex_guards)
  show ?thesis
    by (simp add: transcribe_audio_saved [OF g ex_upload_read]
          stt_chain_primary_answers [OF _ ex_primary_attempt_returns] ex_primary_response)
qed

lemma ex_run_fallback:
  "snd (transcribe_audio ex_stt_env (ex_stt_state None (Some (ex_whisper True)))
          ex_audio ex_world) =
     Inr \<lparr>resp_text = ''hello world'', language = ''en'', confidence = Some (7/10),
          segments = [\<lparr>seg_start = 0, seg_end = 1, seg_text = ''hello''\<rparr>,
                      \<lparr>seg_start = 1, seg_end = 2, seg_text = ''world''\<rparr>]\<rparr>"
proof -
  have g: "WHISPER_AVAILABLE ex_stt_env \<or>
           indicseamless_model (ex_stt_state None (Some (ex_whisper True))) \<noteq> None"
    by (simp add: ex_guards)
  show ?thesis
    by (simp add: transcribe_audio_saved [OF g ex_upload_read]
          stt_chain_fallback_only [OF _ ex_primary_attempt_absent ex_whisper_model]
          ex_fallback_outcome_returns)
qed

text \<open>
  C9. A call that returns a response read the upload, and either the primary model
  answered, and then the confidence is the constant \<open>0.85\<close> and there are no segments;
  or the primary model did not answer and the fallback model did, and then the confidence
  is \<open>1\<close> minus the mean of the \<^verbatim>\<open>no_speech_prob\<close> of its segments, or the constant
  \<open>0.8\<close> when it has none, and the segments of the response are its segments, one for
  one and in order, with their start, their end and their stripped text.
\<close>

theorem transcription_confidence_and_segments:
  assumes run: "transcribe_audio env st audio w = (w', Inr response)"
  shows "\<exists>content. upload_read audio = Inr content \<and>
     ((\<exists>t. primary_attempt env st content = Some (Inr t) \<and>
           resp_text response = py_strip t \<and>
           confidence response = Some (85/100) \<and>
           segments response = []) \<or>
      (\<exists>transcribe result segs.
           (\<forall>t. primary_attempt env st content \<noteq> Some (Inr t)) \<and>
           whisper_model st = Some transcribe \<and> transcribe content = Inr result \<and>
           segs = (case w_segments result of None \<Rightarrow> [] | Some l \<Rightarrow> l) \<and>
           confidence response =
             Some (if segs = [] then 8/10 else 1 - mean_no_speech_prob segs) \<and>
           map (Some \<circ> seg_start) (segments response) = map ws_start segs \<and>
           map (Some \<circ> seg_end) (segments response) = map ws_end segs \<and>
           map (Some \<circ> seg_text) (segments response) =
             map (map_option py_strip \<circ> ws_text) segs))"
proof -
  have guard: "WHISPER_AVAILABLE env \<or> indicseamless_model st \<noteq> None"
  proof (rule ccontr)
    assume "\<not> ?thesis"
    then have "\<not> WHISPER_AVAILABLE env" "indicseamless_model st = None" by auto
    from transcribe_audio_unavailable [OF this, of audio w] run show False by simp
  qed
  obtain content where rd: "upload_read audio = Inr content"
  proof (cases "upload_read audio")
    case (Inl e)
    from transcribe_audio_read_raises [OF guard Inl, of w] run show ?thesis by simp
  next
    case (Inr content)
    then show ?thesis by (rule that)
  qed
  let ?p = "temp_name env (upload_suffix env audio)"
  let ?w1 = "w\<lparr>files := (files w)(?p \<mapsto> content),
                events := events w @ [TempCreated ?p, UploadRead]\<rparr>"
  have f: "files ?w1 ?p = Some content" by simp
  from transcribe_audio_saved [OF guard rd, of w] run
  have chain: "stt_chain env st ?p ?w1 = (w', Inr response)" by simp
  have fb: ?thesis
    if never: "\<forall>t. primary_attempt env st content \<noteq> Some (Inr t)"
      and out: "whisper_model st = Some transcribe"
               "fallback_outcome transcribe content = Inr response" for transcribe
  proof -
    from out(2) obtain result where
      res: "transcribe content = Inr result" and wr: "whisper_response result = Inr response"
      by (auto simp: fallback_outcome_def split: sum.splits)
    from whisper_response_Inr [OF wr] out_segments_Inr [of _ "segments response"]
    have "confidence response =
            Some (if (case w_segments result of None \<Rightarrow> [] | Some l \<Rightarrow> l) = [] then 8/10
                  else 1 - mean_no_speech_prob (case w_segments result of None \<Rightarrow> [] | Some l \<Rightarrow> l))"
      and "map (Some \<circ> seg_start) (segments response) =
             map ws_start (case w_segments result of None \<Rightarrow> [] | Some l \<Rightarrow> l)"
      and "map (Some \<circ> seg_end) (segments response) =
             map ws_end (case w_segments result of None \<Rightarrow> [] | Some l \<Rightarrow> l)"
      and "map (Some \<circ> seg_text) (segments response) =
             map (map_option py_strip \<circ> ws_text) (case w_segments result of None \<Rightarrow> [] | Some l \<Rightarrow> l)"
      by blast+
    with rd never out(1) res show ?thesis by blast
  qed
  show ?thesis
  proof (cases "primary_attempt env st content")
    case None
    show ?thesis
    proof (cases "whisper_model st")
      case N: None
      from stt_chain_no_model [OF f None N] chain show ?thesis by simp
    next
      case (Some transcribe)
      from stt_chain_fallback_only [OF f None Some] chain
      have "fallback_outcome transcribe content = Inr response" by simp
      with None Some show ?thesis by (intro fb) simp_all
    qed
  next
    case (Some a)
    show ?thesis
    proof (cases a)
      case (Inr t)
      with Some have pa: "primary_attempt env st content = Some (Inr t)" by simp
      from stt_chain_primary_answers [OF f pa] chain
      have "response = primary_response env t" by simp
      with rd pa show ?thesis by (auto simp: primary_response_def)
    next
      case (Inl e)
      with Some have pa: "primary_attempt env st content = Some (Inl e)" by simp
      show ?thesis
      proof (cases "whisper_model st")
        case None
        from stt_chain_primary_raises_alone [OF f pa None] chain show ?thesis by simp
      next
        case wm: (Some transcribe)
        from stt_chain_primary_raises [OF f pa wm] chain
        have "fallback_outcome transcribe content = Inr response" by simp
        with pa wm show ?thesis by (intro fb) simp_all
      qed
    qed
  qed
qed

theorem transcription_confidence_and_segments_witness:
  "snd (transcribe_audio ex_stt_env (ex_stt_state (Some (ex_generate True)) (Some (ex_whisper True)))
          ex_audio ex_world) =
     Inr \<lparr>resp_text = ''namaste'', language = ''en'', confidence = Some (17/20), segments = []\<rparr> \<and>
   primary_attempt ex_stt_env (ex_stt_state (Some (ex_generate True)) (Some (ex_whisper True)))
     [82, 73, 70, 70] = Some (Inr '' namaste '') \<and>
   snd (transcribe_audio ex_stt_env (ex_stt_state None (Some (ex_whisper True)))
          ex_audio ex_world) =
     Inr \<lparr>resp_text = ''hello world'', language = ''en'', confidence = Some (7/10),
          segments = [\<lparr>seg_start = 0, seg_end = 1, seg_text = ''hello''\<rparr>,
                      \<lparr>seg_start = 1, seg_end = 2, seg_text = ''world''\<rparr>]\<rparr> \<and>
   ex_whisper True [82, 73, 70, 70] = Inr ex_whisper_result \<and>
   (1::real) - mean_no_speech_prob (the (w_segments ex_whisper_result)) = 7/10"
  using
    transcription_confidence_and_segments [of ex_stt_env
      "ex_stt_state (Some (ex_generate True)) (Some (ex_whisper True))" ex_audio ex_world
      "fst (transcribe_audio ex_stt_env
         (ex_stt_state (Some (ex_generate True)) (Some (ex_whisper True))) ex_audio ex_world)"
      "\<lparr>resp_text = ''namaste'', language = ''en'', confidence = Some (17/20), segments = []\<rparr>"]
    transcription_confidence_and_segments [of ex_stt_env
      "ex_stt_state None (Some (ex_whisper True))" ex_audio ex_world
      "fst (transcribe_audio ex_stt_env
         (ex_stt_state None (Some (ex_whisper True))) ex_audio ex_world)"
      "\<lparr>resp_text = ''hello world'', language = ''en'', confidence = Some (7/10),
          segments = [\<lparr>seg_start = 0, seg_end = 1, seg_text = ''hello''\<rparr>,
                      \<lparr>seg_start = 1, seg_end = 2, seg_text = ''world''\<rparr>]\<rparr>"]
  by (simp add: prod_eq_iff ex_run_primary ex_run_fallback ex_primary_attempt_returns
        ex_whisper_def ex_whisper_result_def mean_no_speech_prob_def)

end
